theory Spec2Isabelle
  imports Complex_Main
begin

section \<open>The control-loop simulator of \<^verbatim>\<open>sim_tools/sim.py\<close>\<close>

text \<open>
  The development embeds \<^verbatim>\<open>simulate_system\<close> and \<^verbatim>\<open>simulation_update\<close> of
  \<^verbatim>\<open>sim_tools/sim.py\<close>. Every exception the source can raise is a value of type
  \<open>error\<close>; a loop that never ends is the value \<open>None\<close>. Storage is unbounded: no
  allocation fails.

  The modules \<^verbatim>\<open>plant\<close> and \<^verbatim>\<open>controller\<close> are modules of their own, which \<^verbatim>\<open>sim.py\<close> imports,
  and \<^verbatim>\<open>literal_eval\<close>, \<^verbatim>\<open>float\<close>, numpy's generator and the arithmetic of the machine's
  floating-point unit are library code. They are parameters of the model, collected in
  the record \<open>env\<close>.
\<close>

subsection \<open>Errors, floats and literal values\<close>

datatype error =
  ZeroDivisionError | AssertionError | IndexError | ValueError | OverflowError
  | SyntaxError | TypeError | KeyError

text \<open>
  A Python \<^verbatim>\<open>float\<close> is a binary64 value: a finite number, an infinity or a NaN. The
  sign of a zero is not kept: \<^verbatim>\<open>sim.py\<close> divides only after Python's check of the divisor,
  which treats both zeros alike, and compares zeros as equal.
\<close>

datatype pyfloat = Fin real | PosInf | NegInf | NaN

text \<open>\<^verbatim>\<open>x < y\<close> and \<^verbatim>\<open>x <= y\<close> on floats: every comparison with a NaN is false.\<close>

fun float_lt :: "pyfloat \<Rightarrow> pyfloat \<Rightarrow> bool" where
  "float_lt (Fin x) (Fin y) = (x < y)"
| "float_lt (Fin x) PosInf = True"
| "float_lt NegInf (Fin y) = True"
| "float_lt NegInf PosInf = True"
| "float_lt _ _ = False"

fun float_le :: "pyfloat \<Rightarrow> pyfloat \<Rightarrow> bool" where
  "float_le (Fin x) (Fin y) = (x \<le> y)"
| "float_le (Fin x) PosInf = True"
| "float_le NegInf (Fin y) = True"
| "float_le NegInf PosInf = True"
| "float_le NegInf NegInf = True"
| "float_le PosInf PosInf = True"
| "float_le _ _ = False"

text \<open>What \<^verbatim>\<open>ast.literal_eval\<close> can return; \<^verbatim>\<open>isinstance(v, dict)\<close> is \<open>is_dict v\<close>.\<close>

datatype pyval =
  PyDict "(string \<times> pyfloat) list"
  | PyNum pyfloat
  | PyStr string
  | PyList "pyval list"
  | PyNone

fun is_dict :: "pyval \<Rightarrow> bool" where
  "is_dict (PyDict kvs) = True"
| "is_dict v = False"

subsection \<open>Python's \<^verbatim>\<open>round\<close> and \<^verbatim>\<open>collections.deque\<close>\<close>

text \<open>The nearest integer of a real number, a tie going to the even one.\<close>

definition round_half_even :: "real \<Rightarrow> int" where
  "round_half_even x =
     (let f = \<lfloor>x\<rfloor>; d = x - of_int f
      in if d < 1 / 2 then f
         else if 1 / 2 < d then f + 1
         else if even f then f else f + 1)"

text \<open>
  \<^verbatim>\<open>round(x)\<close> of a float, with no second argument, is an \<^verbatim>\<open>int\<close> of any size: the
  nearest integer of a finite value, a tie going to the even one. It raises
  \<^verbatim>\<open>OverflowError\<close> for an infinity and \<^verbatim>\<open>ValueError\<close> for a NaN.
\<close>

fun py_round :: "pyfloat \<Rightarrow> error + int" where
  "py_round (Fin x) = Inr (round_half_even x)"
| "py_round NaN = Inl ValueError"
| "py_round PosInf = Inl OverflowError"
| "py_round NegInf = Inl OverflowError"

record deque =
  maxlen :: nat
  items :: "pyfloat list"

text \<open>
  \<^verbatim>\<open>deque(maxlen=n)\<close> for a Python \<^verbatim>\<open>int\<close> \<open>n\<close>: the bound must fit the C type
  \<^verbatim>\<open>Py_ssize_t\<close> (64 bits), else \<^verbatim>\<open>OverflowError\<close> is raised, and must not be negative,
  else \<^verbatim>\<open>ValueError\<close> is raised.
\<close>

definition deque_new :: "int \<Rightarrow> error + deque" where
  "deque_new n =
     (if n < - (2 ^ 63) \<or> 2 ^ 63 \<le> n then Inl OverflowError
      else if n < 0 then Inl ValueError
      else Inr \<lparr>maxlen = nat n, items = []\<rparr>)"

text \<open>
  \<^verbatim>\<open>d.append(x)\<close>: a full deque drops its leftmost element; a deque of capacity 0 stays
  empty.
\<close>

definition deque_append :: "deque \<Rightarrow> pyfloat \<Rightarrow> deque" where
  "deque_append d x =
     (if maxlen d = 0 then d
      else if length (items d) = maxlen d then d\<lparr>items := tl (items d) @ [x]\<rparr>
      else d\<lparr>items := items d @ [x]\<rparr>)"

definition deque_extend :: "deque \<Rightarrow> pyfloat list \<Rightarrow> deque" where
  "deque_extend d xs = foldl deque_append d xs"

text \<open>\<^verbatim>\<open>d[0]\<close> raises \<^verbatim>\<open>IndexError\<close> on an empty deque.\<close>

definition deque_front :: "deque \<Rightarrow> error + pyfloat" where
  "deque_front d = (case items d of [] \<Rightarrow> Inl IndexError | x # _ \<Rightarrow> Inr x)"

subsection \<open>Command-line arguments, environment and simulation state\<close>

text \<open>
  The \<^verbatim>\<open>argparse\<close> namespace: \<^verbatim>\<open>--pid\<close> has \<^verbatim>\<open>nargs=3\<close> and no type, so it holds three
  strings; the dictionaries arrive as strings; the rest are floats (\<^verbatim>\<open>type=float\<close>
  accepts \<^verbatim>\<open>inf\<close> and \<^verbatim>\<open>nan\<close>) or flags.
\<close>

record args =
  plant :: string
  pid :: "string \<times> string \<times> string"
  setpoint :: pyfloat
  supress_output :: bool
  interval :: pyfloat
  delay :: pyfloat
  sampletime :: pyfloat
  out_min :: pyfloat
  out_max :: pyfloat
  sensor_noise_std_dev :: pyfloat
  output_rate_limit :: pyfloat
  constant_values :: string
  initial_values :: string

text \<open>
  The parameters of the model. \<open>float_add\<close>, \<open>float_mul\<close> and \<open>float_div\<close> are
  the binary64 operations \<^verbatim>\<open>+\<close>, \<^verbatim>\<open>*\<close> and \<^verbatim>\<open>/\<close>, each with its rounding
  (\<open>float_div\<close> is the quotient that Python returns once it has found the divisor not
  to be zero). \<open>plant_module\<close> is the namespace of the module
  \<^verbatim>\<open>plant\<close>: \<^verbatim>\<open>hasattr(plant, n)\<close> holds when \<open>plant_module n\<close> is defined, and calling the
  attribute with the two dictionaries yields a plant object or raises. \<open>update\<close>
  and \<open>sensable_state\<close> are the plant's method and attribute. \<open>PIDArduino\<close> is the
  controller's constructor, called with \<^verbatim>\<open>sampletime, kp, ki, kd, out_min, out_max\<close> (its
  \<^verbatim>\<open>time\<close> argument is the closure reading the loop's \<^verbatim>\<open>timestamp\<close>: the model hands
  the time to \<open>calc\<close> instead). \<open>calc c now input_val setpoint max_allowable_change\<close>
  returns the output and the controller's new state. \<open>random_normal k scale\<close> is what
  the \<open>k\<close>-th call of the generator, \<^verbatim>\<open>np.random.normal(scale=scale)\<close>, delivers or
  raises.
\<close>

record ('p, 'c) env =
  float_add :: "pyfloat \<Rightarrow> pyfloat \<Rightarrow> pyfloat"
  float_mul :: "pyfloat \<Rightarrow> pyfloat \<Rightarrow> pyfloat"
  float_div :: "pyfloat \<Rightarrow> pyfloat \<Rightarrow> pyfloat"
  plant_module :: "string \<Rightarrow> (pyval \<Rightarrow> pyval \<Rightarrow> error + 'p) option"
  update :: "'p \<Rightarrow> pyfloat \<Rightarrow> pyfloat \<Rightarrow> 'p"
  sensable_state :: "'p \<Rightarrow> pyfloat"
  PIDArduino ::
    "pyfloat \<Rightarrow> pyfloat \<Rightarrow> pyfloat \<Rightarrow> pyfloat \<Rightarrow> pyfloat \<Rightarrow> pyfloat \<Rightarrow> error + 'c"
  calc :: "'c \<Rightarrow> pyfloat \<Rightarrow> pyfloat \<Rightarrow> pyfloat \<Rightarrow> pyfloat \<Rightarrow> pyfloat \<times> 'c"
  literal_eval :: "string \<Rightarrow> error + pyval"
  py_float :: "string \<Rightarrow> error + pyfloat"
  random_normal :: "nat \<Rightarrow> pyfloat \<Rightarrow> error + pyfloat"

text \<open>The named tuple \<^verbatim>\<open>Simulation\<close>; its mutable members are held by value.\<close>

record ('p, 'c) simulation =
  name :: string
  controller :: 'c
  plant :: 'p
  delayed_states :: deque
  timestamps :: "pyfloat list"
  plant_states :: "pyfloat list"
  sensor_states :: "pyfloat list"
  outputs :: "pyfloat list"

text \<open>
  The state of \<^verbatim>\<open>simulate_system\<close> while its loop runs: the simulation, the local
  \<^verbatim>\<open>timestamp\<close>, and the number of calls of the generator so far.
\<close>

record ('p, 'c) run_state =
  sim :: "('p, 'c) simulation"
  timestamp :: pyfloat
  rng_draws :: nat

subsection \<open>\<^verbatim>\<open>simulation_update\<close>\<close>

definition simulation_update ::
  "('p, 'c) env \<Rightarrow> ('p, 'c) simulation \<Rightarrow> pyfloat \<Rightarrow> pyfloat \<Rightarrow> args \<Rightarrow>
   error + ('p, 'c) simulation"
where
  "simulation_update e simulation ts output a =
     (let p = update e (plant simulation) output (sampletime a);
          ds = deque_append (delayed_states simulation) (sensable_state e p)
      in case deque_front ds of
           Inl err \<Rightarrow> Inl err
         | Inr front \<Rightarrow>
             Inr (simulation
               \<lparr>plant := p,
                delayed_states := ds,
                sensor_states := sensor_states simulation @ [front],
                timestamps := timestamps simulation @ [ts],
                outputs := outputs simulation @ [output],
                plant_states := plant_states simulation @ [sensable_state e p]\<rparr>))"

subsection \<open>\<^verbatim>\<open>simulate_system\<close>\<close>

text \<open>
  Lines 21 to 57: everything before the loop. The result is the simulation with its
  delay line filled, and \<^verbatim>\<open>allowable_change\<close>. Line 22 divides two floats, which raises
  \<^verbatim>\<open>ZeroDivisionError\<close> for a zero divisor, and rounds the quotient. The arguments of
  \<^verbatim>\<open>Simulation\<close> are evaluated in the order in which they are written.
\<close>

definition simulate_system_setup ::
  "('p, 'c) env \<Rightarrow> args \<Rightarrow> error + (('p, 'c) simulation \<times> pyfloat)"
where
  "simulate_system_setup e a =
     (if sampletime a = Fin 0 then Inl ZeroDivisionError
      else
        case py_round (float_div e (delay a) (sampletime a)) of
          Inl err \<Rightarrow> Inl err
        | Inr rounded \<Rightarrow>
        let delayed_samples_len = max 1 rounded in
        case plant_module e (args.plant a) of
          None \<Rightarrow> Inl AssertionError
        | Some plantClass \<Rightarrow>
        (case literal_eval e (initial_values a) of
          Inl err \<Rightarrow> Inl err
        | Inr initial \<Rightarrow>
        if \<not> is_dict initial then Inl AssertionError
        else
        (case literal_eval e (constant_values a) of
          Inl err \<Rightarrow> Inl err
        | Inr constants \<Rightarrow>
        if \<not> is_dict constants then Inl AssertionError
        else
        (case py_float e (fst (pid a)) of
          Inl err \<Rightarrow> Inl err
        | Inr kp \<Rightarrow>
        (case py_float e (fst (snd (pid a))) of
          Inl err \<Rightarrow> Inl err
        | Inr ki \<Rightarrow>
        (case py_float e (snd (snd (pid a))) of
          Inl err \<Rightarrow> Inl err
        | Inr kd \<Rightarrow>
        (case PIDArduino e (sampletime a) kp ki kd (out_min a) (out_max a) of
          Inl err \<Rightarrow> Inl err
        | Inr c \<Rightarrow>
        (case plantClass initial constants of
          Inl err \<Rightarrow> Inl err
        | Inr p \<Rightarrow>
        (case deque_new delayed_samples_len of
          Inl err \<Rightarrow> Inl err
        | Inr d \<Rightarrow>
            let s = \<lparr>name = args.plant a @ '' PID'',
                     controller = c,
                     plant = p,
                     delayed_states = d,
                     timestamps = [],
                     plant_states = [],
                     sensor_states = [],
                     outputs = []\<rparr>;
                s = s\<lparr>delayed_states :=
                       deque_extend (delayed_states s)
                         (replicate (maxlen (delayed_states s)) (sensable_state e (plant s)))\<rparr>;
                allowable_change = float_mul e (output_rate_limit a) (sampletime a)
            in Inr (s, allowable_change))))))))))"

text \<open>Lines 64 to 69: the noise and the sensed value of one tick.\<close>

definition read_sensor ::
  "('p, 'c) env \<Rightarrow> args \<Rightarrow> ('p, 'c) run_state \<Rightarrow> error + (pyfloat \<times> nat)"
where
  "read_sensor e a s =
     (case (if float_le (sensor_noise_std_dev a) (Fin 0) then Inr (Fin 0, rng_draws s)
            else (case random_normal e (rng_draws s) (sensor_noise_std_dev a) of
                    Inl err \<Rightarrow> Inl err
                  | Inr v \<Rightarrow> Inr (v, Suc (rng_draws s)))) of
        Inl err \<Rightarrow> Inl err
      | Inr (sensor_noise, draws) \<Rightarrow>
          (case deque_front (delayed_states (sim s)) of
             Inl err \<Rightarrow> Inl err
           | Inr front \<Rightarrow> Inr (float_add e front sensor_noise, draws)))"

text \<open>Lines 62 to 82: the body of the loop.\<close>

definition loop_body ::
  "('p, 'c) env \<Rightarrow> args \<Rightarrow> pyfloat \<Rightarrow> ('p, 'c) run_state \<Rightarrow> error + ('p, 'c) run_state"
where
  "loop_body e a allowable_change s =
     (let ts = float_add e (timestamp s) (sampletime a) in
      case read_sensor e a s of
        Inl err \<Rightarrow> Inl err
      | Inr (sensor_state, draws) \<Rightarrow>
          let (output, c) =
                (if supress_output a then (Fin 0, controller (sim s))
                 else calc e (controller (sim s)) ts sensor_state (setpoint a)
                        allowable_change)
          in case simulation_update e ((sim s)\<lparr>controller := c\<rparr>) ts output a of
               Inl err \<Rightarrow> Inl err
             | Inr sim' \<Rightarrow> Inr \<lparr>sim = sim', timestamp = ts, rng_draws = draws\<rparr>)"

text \<open>Line 61: the test of the loop.\<close>

definition loop_cond :: "('p, 'c) env \<Rightarrow> args \<Rightarrow> ('p, 'c) run_state \<Rightarrow> bool" where
  "loop_cond e a s = float_lt (timestamp s) (float_mul e (interval a) (Fin 60))"

text \<open>
  Lines 61 to 82: the loop. It need not end (a negative sample time moves the clock
  backwards, and a small one may not move it at all), so it is a partial function:
  \<open>None\<close> is a run that never returns.
\<close>

partial_function (option) sim_loop ::
  "('p, 'c) env \<Rightarrow> args \<Rightarrow> pyfloat \<Rightarrow> ('p, 'c) run_state \<Rightarrow>
   (error + ('p, 'c) run_state) option"
where
  "sim_loop e a allowable_change s =
     (if loop_cond e a s
      then (case loop_body e a allowable_change s of
              Inl err \<Rightarrow> Some (Inl err)
            | Inr s' \<Rightarrow> sim_loop e a allowable_change s')
      else Some (Inr s))"

text \<open>
  The whole function, up to the plotting calls that follow the loop; what it hands to
  \<^verbatim>\<open>plot_simulation\<close> is the result.
\<close>

definition simulate_system ::
  "('p, 'c) env \<Rightarrow> args \<Rightarrow> (error + ('p, 'c) run_state) option"
where
  "simulate_system e a =
     (case simulate_system_setup e a of
        Inl err \<Rightarrow> Some (Inl err)
      | Inr (s, allowable_change) \<Rightarrow>
          sim_loop e a allowable_change \<lparr>sim = s, timestamp = Fin 0, rng_draws = 0\<rparr>)"

subsection \<open>The PID controller\<close>

text \<open>
  Modelled from the spec: the class \<^verbatim>\<open>PIDArduino\<close> of the module \<^verbatim>\<open>controller\<close>, whose
  state is the record below: the gains, the configured sample time and output bounds,
  the running integral, the last input, the time of the last computation and the last
  output. The contract is stated over the real numbers, and so is this model. The last
  output is 0 at start.
\<close>

record pid_state =
  pid_kp :: real
  pid_ki :: real
  pid_kd :: real
  pid_sampletime :: real
  pid_out_min :: real
  pid_out_max :: real
  integral :: real
  last_input :: real
  last_time :: real
  last_output :: real

text \<open>
  Modelled from the spec: the constructor of \<^verbatim>\<open>PIDArduino\<close>, which fails fast when
  \<^verbatim>\<open>out_min > out_max\<close>.
\<close>

definition spec_PIDArduino ::
  "real \<Rightarrow> real \<Rightarrow> real \<Rightarrow> real \<Rightarrow> real \<Rightarrow> real \<Rightarrow> error + pid_state"
where
  "spec_PIDArduino st kp ki kd lo hi =
     (if hi < lo then Inl ValueError
      else Inr \<lparr>pid_kp = kp, pid_ki = ki, pid_kd = kd, pid_sampletime = st,
                pid_out_min = lo, pid_out_max = hi,
                integral = 0, last_input = 0, last_time = 0, last_output = 0\<rparr>)"

text \<open>
  Modelled from the spec: the method \<^verbatim>\<open>calc\<close> of \<^verbatim>\<open>PIDArduino\<close>, in the order of its
  contract. A call that comes sooner than one sample time after the last computation
  returns the previous output unchanged. Otherwise the error is
  \<open>setpoint - sensed_value\<close>, the integral accumulates \<open>error * sample_time\<close>, the
  derivative is the rate of change of the sensed input over one sample time, and the raw
  output is \<open>kp * error + ki * integral + kd * derivative\<close>. When the raw output leaves
  the output range the integral's accumulation of this step is rolled back. The raw output
  is clamped to the range, and then the change from the previous output is clamped to
  \<open>\<plusminus> max_allowable_change\<close>.
\<close>

definition spec_calc ::
  "pid_state \<Rightarrow> real \<Rightarrow> real \<Rightarrow> real \<Rightarrow> real \<Rightarrow> real \<times> pid_state"
where
  "spec_calc c now sensed_value sp max_allowable_change =
     (if now - last_time c < pid_sampletime c then (last_output c, c)
      else
        let err = sp - sensed_value;
            accumulated = integral c + err * pid_sampletime c;
            derivative = (sensed_value - last_input c) / pid_sampletime c;
            raw = pid_kp c * err + pid_ki c * accumulated + pid_kd c * derivative;
            saturated = (raw < pid_out_min c \<or> pid_out_max c < raw);
            clamped = max (pid_out_min c) (min (pid_out_max c) raw);
            change = max (- max_allowable_change)
                       (min max_allowable_change (clamped - last_output c));
            output = last_output c + change
        in (output,
            c\<lparr>integral := (if saturated then integral c else accumulated),
              last_input := sensed_value,
              last_time := now,
              last_output := output\<rparr>))"


subsection \<open>A concrete environment and concrete arguments\<close>

text \<open>
  An instance of the parameters, used to run the definitions on concrete inputs. Its
  arithmetic is exact on finite values, which is what binary64 arithmetic does wherever
  the exact result is a binary64 number; that is so for every operation of the runs
  below, whose values are integers below \<open>2 ^ 53\<close>, 2.5 and 1.25. Its one plant,
  \<^verbatim>\<open>Ramp\<close>, holds a single number that starts at the dictionary's entry \<^verbatim>\<open>x0\<close> (40 when
  absent) and grows by \<open>(command + 1) * duration\<close> in each update. The generator
  delivers the sample 1, scaled, and rejects a negative scale. The controller is a
  parameter of the instance.
\<close>

definition exact :: "(real \<Rightarrow> real \<Rightarrow> real) \<Rightarrow> pyfloat \<Rightarrow> pyfloat \<Rightarrow> pyfloat" where
  "exact f x y =
     (case x of
        Fin u \<Rightarrow> (case y of Fin v \<Rightarrow> Fin (f u v) | _ \<Rightarrow> NaN)
      | _ \<Rightarrow> NaN)"

definition test_env ::
  "(pyfloat \<Rightarrow> pyfloat \<Rightarrow> pyfloat \<Rightarrow> pyfloat \<Rightarrow> pyfloat \<Rightarrow> pyfloat \<Rightarrow> error + 'c) \<Rightarrow>
   ('c \<Rightarrow> pyfloat \<Rightarrow> pyfloat \<Rightarrow> pyfloat \<Rightarrow> pyfloat \<Rightarrow> pyfloat \<times> 'c) \<Rightarrow> (pyfloat, 'c) env"
where
  "test_env ctor cl =
     \<lparr>float_add = exact (+),
      float_mul = exact (*),
      float_div = exact (/),
      plant_module =
        (\<lambda>n. if n = ''Ramp''
              then Some (\<lambda>initial constants.
                     case initial of
                       PyDict kvs \<Rightarrow>
                         Inr (case map_of kvs ''x0'' of None \<Rightarrow> Fin 40 | Some v \<Rightarrow> v)
                     | _ \<Rightarrow> Inl TypeError)
              else None),
      update = (\<lambda>p command duration.
                  exact (+) p (exact (*) (exact (+) command (Fin 1)) duration)),
      sensable_state = (\<lambda>p. p),
      PIDArduino = ctor,
      calc = cl,
      literal_eval =
        (\<lambda>s. if s = ''{}'' then Inr (PyDict [])
              else if s = ''[]'' then Inr (PyList [])
              else Inl SyntaxError),
      py_float =
        (\<lambda>s. if s = ''0'' then Inr (Fin 0)
              else if s = ''1'' then Inr (Fin 1)
              else Inl ValueError),
      random_normal =
        (\<lambda>k scale. if float_lt scale (Fin 0) then Inl ValueError
                    else Inr (exact (*) scale (Fin 1)))\<rparr>"

text \<open>The instance with a stateless proportional controller of gain 1.\<close>

definition p_env :: "(pyfloat, unit) env" where
  "p_env = test_env (\<lambda>st kp ki kd lo hi. Inr ())
                    (\<lambda>c now sensed_value sp max_allowable_change.
                       (exact (-) sp sensed_value, c))"

text \<open>
  One minute of simulated time in steps of 48 seconds, with a delay of 120 seconds: the
  quotient of line 22 is 2.5.
\<close>

definition test_args :: args where
  "test_args =
     \<lparr>args.plant = ''Ramp'', pid = (''1'', ''0'', ''0''), setpoint = Fin 45,
      supress_output = False, interval = Fin 1, delay = Fin 120, sampletime = Fin 48,
      out_min = Fin 0, out_max = Fin 100, sensor_noise_std_dev = Fin 0,
      output_rate_limit = Fin 1, constant_values = ''{}'', initial_values = ''{}''\<rparr>"

text \<open>
  The simulation that the set-up builds from these arguments, and the states of the run
  after its first and after its second, last tick.
\<close>

definition p_sim0 :: "(pyfloat, unit) simulation" where
  "p_sim0 = \<lparr>name = ''Ramp PID'', controller = (), plant = Fin 40,
            delayed_states = \<lparr>maxlen = 2, items = [Fin 40, Fin 40]\<rparr>,
            timestamps = [], plant_states = [], sensor_states = [], outputs = []\<rparr>"

definition p_s0 :: "(pyfloat, unit) run_state" where
  "p_s0 = \<lparr>sim = p_sim0, timestamp = Fin 0, rng_draws = 0\<rparr>"

definition p_s1 :: "(pyfloat, unit) run_state" where
  "p_s1 = \<lparr>sim = \<lparr>name = ''Ramp PID'', controller = (), plant = Fin 328,
                  delayed_states = \<lparr>maxlen = 2, items = [Fin 40, Fin 328]\<rparr>,
                  timestamps = [Fin 48], plant_states = [Fin 328],
                  sensor_states = [Fin 40], outputs = [Fin 5]\<rparr>,
           timestamp = Fin 48, rng_draws = 0\<rparr>"

definition p_s2 :: "(pyfloat, unit) run_state" where
  "p_s2 = \<lparr>sim = \<lparr>name = ''Ramp PID'', controller = (), plant = Fin 616,
                  delayed_states = \<lparr>maxlen = 2, items = [Fin 328, Fin 616]\<rparr>,
                  timestamps = [Fin 48, Fin 96], plant_states = [Fin 328, Fin 616],
                  sensor_states = [Fin 40, Fin 328], outputs = [Fin 5, Fin 5]\<rparr>,
           timestamp = Fin 96, rng_draws = 0\<rparr>"

text \<open>The same arguments with no delay, and the states of that run.\<close>

definition zero_delay_args :: args where
  "zero_delay_args = test_args\<lparr>delay := Fin 0\<rparr>"

definition z_sim0 :: "(pyfloat, unit) simulation" where
  "z_sim0 = \<lparr>name = ''Ramp PID'', controller = (), plant = Fin 40,
            delayed_states = \<lparr>maxlen = 1, items = [Fin 40]\<rparr>,
            timestamps = [], plant_states = [], sensor_states = [], outputs = []\<rparr>"

definition z_s0 :: "(pyfloat, unit) run_state" where
  "z_s0 = \<lparr>sim = z_sim0, timestamp = Fin 0, rng_draws = 0\<rparr>"

definition z_s1 :: "(pyfloat, unit) run_state" where
  "z_s1 = \<lparr>sim = \<lparr>name = ''Ramp PID'', controller = (), plant = Fin 328,
                  delayed_states = \<lparr>maxlen = 1, items = [Fin 328]\<rparr>,
                  timestamps = [Fin 48], plant_states = [Fin 328],
                  sensor_states = [Fin 328], outputs = [Fin 5]\<rparr>,
           timestamp = Fin 48, rng_draws = 0\<rparr>"

definition z_s2 :: "(pyfloat, unit) run_state" where
  "z_s2 = \<lparr>sim = \<lparr>name = ''Ramp PID'', controller = (), plant = Fin (- 13208),
                  delayed_states = \<lparr>maxlen = 1, items = [Fin (- 13208)]\<rparr>,
                  timestamps = [Fin 48, Fin 96], plant_states = [Fin 328, Fin (- 13208)],
                  sensor_states = [Fin 328, Fin (- 13208)], outputs = [Fin 5, Fin (- 283)]\<rparr>,
           timestamp = Fin 96, rng_draws = 0\<rparr>"

text \<open>The first arguments with a negative noise level.\<close>

definition negative_noise_args :: args where
  "negative_noise_args = test_args\<lparr>sensor_noise_std_dev := Fin (- 1)\<rparr>"

text \<open>
  The first arguments with the output suppressed, and the states of that run after its
  first and after its second, last tick.
\<close>

definition supress_args :: args where
  "supress_args = test_args\<lparr>supress_output := True\<rparr>"

definition u_s1 :: "(pyfloat, unit) run_state" where
  "u_s1 = \<lparr>sim = \<lparr>name = ''Ramp PID'', controller = (), plant = Fin 88,
                  delayed_states = \<lparr>maxlen = 2, items = [Fin 40, Fin 88]\<rparr>,
                  timestamps = [Fin 48], plant_states = [Fin 88],
                  sensor_states = [Fin 40], outputs = [Fin 0]\<rparr>,
           timestamp = Fin 48, rng_draws = 0\<rparr>"

definition u_s2 :: "(pyfloat, unit) run_state" where
  "u_s2 = \<lparr>sim = \<lparr>name = ''Ramp PID'', controller = (), plant = Fin 136,
                  delayed_states = \<lparr>maxlen = 2, items = [Fin 88, Fin 136]\<rparr>,
                  timestamps = [Fin 48, Fin 96], plant_states = [Fin 88, Fin 136],
                  sensor_states = [Fin 40, Fin 88], outputs = [Fin 0, Fin 0]\<rparr>,
           timestamp = Fin 96, rng_draws = 0\<rparr>"

text \<open>The first arguments with a plant that the module does not have, and with a list
  for the initial values.\<close>

definition unknown_plant_args :: args where
  "unknown_plant_args = test_args\<lparr>args.plant := ''Oven''\<rparr>"

definition list_values_args :: args where
  "list_values_args = test_args\<lparr>initial_values := ''[]''\<rparr>"

text \<open>
  Two controllers as the constructor makes them: a proportional one with the output
  range from 0 to 100, and one with all gains 0 and the output range from 5 to 10.
\<close>

definition pid0 :: pid_state where
  "pid0 = \<lparr>pid_kp = 1, pid_ki = 0, pid_kd = 0, pid_sampletime = 48,
           pid_out_min = 0, pid_out_max = 100,
           integral = 0, last_input = 0, last_time = 0, last_output = 0\<rparr>"

definition narrow0 :: pid_state where
  "narrow0 = \<lparr>pid_kp = 0, pid_ki = 0, pid_kd = 0, pid_sampletime = 48,
              pid_out_min = 5, pid_out_max = 10,
              integral = 0, last_input = 0, last_time = 0, last_output = 0\<rparr>"

subsection \<open>Auxiliary notions\<close>

text \<open>A delay line that holds as many values as its capacity, which is at least 1.\<close>

definition deque_full :: "deque \<Rightarrow> bool" where
  "deque_full d = (1 \<le> maxlen d \<and> length (items d) = maxlen d)"

text \<open>
  The state after \<open>n\<close> executions of the loop body, whatever the test of the loop says;
  the loop itself is related to it by \<open>sim_loop_ticks\<close> below.
\<close>

fun run_ticks ::
  "('p, 'c) env \<Rightarrow> args \<Rightarrow> pyfloat \<Rightarrow> nat \<Rightarrow> ('p, 'c) run_state \<Rightarrow> error + ('p, 'c) run_state"
where
  "run_ticks e a ac 0 s = Inr s"
| "run_ticks e a ac (Suc n) s =
     (case loop_body e a ac s of
        Inl err \<Rightarrow> Inl err
      | Inr s' \<Rightarrow> run_ticks e a ac n s')"

section \<open>Rounding\<close>

lemma round_half_even_near: "\<bar>real_of_int (round_half_even x) - x\<bar> \<le> 1 / 2"
  unfolding round_half_even_def Let_def by (auto; linarith)

lemma round_half_even_tie:
  "\<bar>real_of_int (round_half_even x) - x\<bar> = 1 / 2 \<Longrightarrow> even (round_half_even x)"
  unfolding round_half_even_def Let_def by (auto split: if_splits; linarith)

lemma round_half_even_small:
  assumes "x < 3 / 2"
  shows "round_half_even x \<le> 1"
proof -
  define f where "f = \<lfloor>x\<rfloor>"
  have le: "f \<le> 1"
    unfolding f_def using assms by (simp add: floor_le_iff)
  have "f \<le> 0" if "\<not> x - real_of_int f < 1 / 2"
  proof -
    have "f \<noteq> 1" using that assms by auto
    with le show ?thesis by simp
  qed
  with le show ?thesis
    unfolding round_half_even_def Let_def f_def [symmetric] by auto
qed

lemma round_half_even_large:
  assumes "3 / 2 \<le> x"
  shows "2 \<le> round_half_even x"
proof -
  define f where "f = \<lfloor>x\<rfloor>"
  have ge: "1 \<le> f"
    unfolding f_def using assms by (simp add: le_floor_iff)
  have "2 \<le> f" if "x - real_of_int f < 1 / 2"
  proof -
    have "f \<noteq> 1" using that assms by auto
    with ge show ?thesis by simp
  qed
  with ge show ?thesis
    unfolding round_half_even_def Let_def f_def [symmetric] by auto
qed

lemma round_half_even_examples:
  "round_half_even (5 / 2) = 2" "round_half_even (7 / 2) = 4" "round_half_even (5 / 4) = 1"
  "round_half_even 0 = 0" "round_half_even (7 / 4) = 2"
  by (simp_all add: round_half_even_def)

section \<open>Properties of the delay line\<close>

lemma deque_append_maxlen: "maxlen (deque_append d x) = maxlen d"
  by (simp add: deque_append_def)

lemma deque_append_full: "deque_full d \<Longrightarrow> deque_full (deque_append d x)"
  by (auto simp: deque_full_def deque_append_def)

lemma deque_append_full_items:
  "deque_full d \<Longrightarrow> items (deque_append d x) = tl (items d) @ [x]"
  by (auto simp: deque_full_def deque_append_def)

lemma deque_front_full: "deque_full d \<Longrightarrow> deque_front d = Inr (hd (items d))"
  by (cases "items d") (auto simp: deque_full_def deque_front_def)

lemma foldl_deque_append_replicate:
  "length (items d) + m \<le> maxlen d \<Longrightarrow>
   foldl deque_append d (replicate m x) = d\<lparr>items := items d @ replicate m x\<rparr>"
proof (induction m arbitrary: d)
  case 0
  then show ?case by simp
next
  case (Suc m)
  have step: "deque_append d x = d\<lparr>items := items d @ [x]\<rparr>"
    using Suc.prems by (auto simp: deque_append_def)
  have "foldl deque_append (deque_append d x) (replicate m x) =
        (deque_append d x)\<lparr>items := items (deque_append d x) @ replicate m x\<rparr>"
    using Suc.prems by (intro Suc.IH) (simp add: step)
  then show ?case by (simp add: step replicate_app_Cons_same)
qed

lemma deque_extend_empty:
  "deque_extend \<lparr>maxlen = n, items = []\<rparr> (replicate n x) = \<lparr>maxlen = n, items = replicate n x\<rparr>"
  by (simp add: deque_extend_def foldl_deque_append_replicate)

lemma deque_new_Inr:
  "deque_new n = Inr d \<Longrightarrow> 0 \<le> n \<and> n < 2 ^ 63 \<and> d = \<lparr>maxlen = nat n, items = []\<rparr>"
  by (auto simp: deque_new_def split: if_splits)

section \<open>Rules for the loop\<close>

text \<open>
  Partial correctness: an invariant of the loop body holds of the state the loop returns,
  together with the negated test of the loop.
\<close>

lemma sim_loop_rule:
  assumes run: "sim_loop e a ac s = Some res"
    and init: "I s"
    and step: "\<And>s s'. I s \<Longrightarrow> loop_cond e a s \<Longrightarrow> loop_body e a ac s = Inr s' \<Longrightarrow> I s'"
  shows "case res of Inl err \<Rightarrow> True | Inr r \<Rightarrow> I r \<and> \<not> loop_cond e a r"
proof -
  let ?Q = "\<lambda>res. case res of Inl err \<Rightarrow> True | Inr r \<Rightarrow> I r \<and> \<not> loop_cond e a r"
  let ?P = "\<lambda>e' a' ac' s res. e' = e \<and> a' = a \<and> ac' = ac \<and> I s \<longrightarrow> ?Q res"
  have "?P e a ac s res"
  proof (rule sim_loop.raw_induct [where P = ?P, OF _ run])
    fix sl e' a' ac' s res
    assume IH: "\<And>e' a' ac' s res. sl e' a' ac' s = Some res \<Longrightarrow> ?P e' a' ac' s res"
      and eq: "(if loop_cond e' a' s
                then case loop_body e' a' ac' s of
                       Inl err \<Rightarrow> Some (Inl err)
                     | Inr s' \<Rightarrow> sl e' a' ac' s'
                else Some (Inr s)) = Some res"
    show "?P e' a' ac' s res"
    proof (intro impI, elim conjE)
      assume same: "e' = e" "a' = a" "ac' = ac" and inv: "I s"
      show "?Q res"
      proof (cases "loop_cond e a s")
        case False
        with eq same inv show ?thesis by auto
      next
        case True
        show ?thesis
        proof (cases "loop_body e a ac s")
          case (Inl err)
          with True eq same show ?thesis by auto
        next
          case (Inr s')
          with True eq same have call: "sl e a ac s' = Some res" by simp
          have "I s'" using step [OF inv True Inr] .
          with IH [OF call] show ?thesis by simp
        qed
      qed
    qed
  qed
  with init show ?thesis by simp
qed

lemma sim_loop_Inr_rule:
  assumes "sim_loop e a ac s = Some (Inr r)" "I s"
    "\<And>s s'. I s \<Longrightarrow> loop_cond e a s \<Longrightarrow> loop_body e a ac s = Inr s' \<Longrightarrow> I s'"
  shows "I r \<and> \<not> loop_cond e a r"
  using sim_loop_rule [OF assms(1), of I, OF assms(2)] assms(3) by simp

text \<open>Two loops whose tests and bodies agree return the same.\<close>

lemma sim_loop_transfer:
  assumes run: "sim_loop e a ac s = Some res"
    and body: "\<And>s. loop_body e2 a2 ac2 s = loop_body e a ac s"
    and cond: "\<And>s. loop_cond e2 a2 s = loop_cond e a s"
  shows "sim_loop e2 a2 ac2 s = Some res"
proof -
  let ?P = "\<lambda>e' a' ac' s res. e' = e \<and> a' = a \<and> ac' = ac \<longrightarrow> sim_loop e2 a2 ac2 s = Some res"
  have "?P e a ac s res"
  proof (rule sim_loop.raw_induct [where P = ?P, OF _ run])
    fix sl e' a' ac' s res
    assume IH: "\<And>e' a' ac' s res. sl e' a' ac' s = Some res \<Longrightarrow> ?P e' a' ac' s res"
      and eq: "(if loop_cond e' a' s
                then case loop_body e' a' ac' s of
                       Inl err \<Rightarrow> Some (Inl err)
                     | Inr s' \<Rightarrow> sl e' a' ac' s'
                else Some (Inr s)) = Some res"
    show "?P e' a' ac' s res"
    proof (intro impI, elim conjE)
      assume same: "e' = e" "a' = a" "ac' = ac"
      show "sim_loop e2 a2 ac2 s = Some res"
      proof (cases "loop_cond e a s")
        case False
        with eq same cond show ?thesis by (subst sim_loop.simps) auto
      next
        case True
        show ?thesis
        proof (cases "loop_body e a ac s")
          case (Inl err)
          with True eq same cond body show ?thesis by (subst sim_loop.simps) auto
        next
          case (Inr s')
          with True eq same have call: "sl e a ac s' = Some res" by simp
          have "sim_loop e2 a2 ac2 s' = Some res" using IH [OF call] by simp
          with True Inr cond body show ?thesis by (subst sim_loop.simps) simp
        qed
      qed
    qed
  qed
  then show ?thesis by simp
qed

lemma sim_loop_cong_body:
  assumes body: "\<And>s. loop_body e2 a2 ac2 s = loop_body e a ac s"
    and cond: "\<And>s. loop_cond e2 a2 s = loop_cond e a s"
  shows "sim_loop e2 a2 ac2 s = sim_loop e a ac s"
proof (cases "sim_loop e a ac s")
  case (Some res)
  then show ?thesis using sim_loop_transfer [OF Some body cond] by simp
next
  case None
  show ?thesis
  proof (cases "sim_loop e2 a2 ac2 s")
    case None': None
    with None show ?thesis by simp
  next
    case (Some res)
    have "sim_loop e a ac s = Some res"
      using sim_loop_transfer [OF Some, of e a ac] body cond by simp
    with None show ?thesis by simp
  qed
qed

text \<open>What the loop returns is the state after some number of ticks.\<close>

lemma run_ticks_snoc:
  "run_ticks e a ac n s = Inr s' \<Longrightarrow> run_ticks e a ac (Suc n) s = loop_body e a ac s'"
proof (induction n arbitrary: s)
  case 0
  then show ?case by (simp split: sum.splits)
next
  case (Suc n)
  from Suc.prems obtain x where x: "loop_body e a ac s = Inr x" "run_ticks e a ac n x = Inr s'"
    by (auto split: sum.splits)
  have "run_ticks e a ac (Suc (Suc n)) s = run_ticks e a ac (Suc n) x"
    using x(1) by simp
  also have "\<dots> = loop_body e a ac s'"
    by (rule Suc.IH [OF x(2)])
  finally show ?case .
qed

lemma sim_loop_ticks:
  assumes "sim_loop e a ac s = Some (Inr r)"
  shows "\<exists>n. run_ticks e a ac n s = Inr r"
proof -
  let ?I = "\<lambda>s'. \<exists>n. run_ticks e a ac n s = Inr s'"
  have init: "?I s" by (rule exI [of _ 0]) simp
  have step: "?I s'' " if "?I s'" "loop_body e a ac s' = Inr s''" for s' s''
  proof -
    from that(1) obtain n where "run_ticks e a ac n s = Inr s'" by blast
    from run_ticks_snoc [OF this] that(2) show ?thesis by metis
  qed
  from sim_loop_Inr_rule [OF assms, of ?I, OF init] step show ?thesis by blast
qed

section \<open>The loop body and the set-up\<close>

lemma simulation_update_Inr:
  assumes "simulation_update e sm ts out a = Inr sm'"
  shows "plant sm' = update e (plant sm) out (sampletime a)"
    and "delayed_states sm' = deque_append (delayed_states sm) (sensable_state e (plant sm'))"
    and "deque_front (delayed_states sm') = Inr (last (sensor_states sm'))"
    and "sensor_states sm' = sensor_states sm @ [last (sensor_states sm')]"
    and "timestamps sm' = timestamps sm @ [ts]"
    and "outputs sm' = outputs sm @ [out]"
    and "plant_states sm' = plant_states sm @ [sensable_state e (plant sm')]"
    and "controller sm' = controller sm"
    and "name sm' = name sm"
  using assms by (auto simp: simulation_update_def Let_def split: sum.splits)

lemma simulation_update_full:
  assumes "deque_full (delayed_states sm)"
  shows "\<exists>sm'. simulation_update e sm ts out a = Inr sm'"
  using deque_front_full [OF deque_append_full [OF assms]]
  by (simp add: simulation_update_def Let_def)

text \<open>With the noise switched off the generator is not called and nothing is added.\<close>

lemma read_sensor_quiet:
  assumes "float_le (sensor_noise_std_dev a) (Fin 0)"
  shows "read_sensor e a s =
           (case deque_front (delayed_states (sim s)) of
              Inl err \<Rightarrow> Inl err
            | Inr front \<Rightarrow> Inr (float_add e front (Fin 0), rng_draws s))"
  using assms by (simp add: read_sensor_def)

lemma loop_body_Inr:
  assumes "loop_body e a ac s = Inr s'"
  shows "timestamp s' = float_add e (timestamp s) (sampletime a)"
    and "timestamps (sim s') = timestamps (sim s) @ [timestamp s']"
    and "plant_states (sim s') = plant_states (sim s) @ [sensable_state e (plant (sim s'))]"
    and "delayed_states (sim s') =
           deque_append (delayed_states (sim s)) (sensable_state e (plant (sim s')))"
    and "deque_front (delayed_states (sim s')) = Inr (last (sensor_states (sim s')))"
    and "sensor_states (sim s') = sensor_states (sim s) @ [last (sensor_states (sim s'))]"
    and "outputs (sim s') = outputs (sim s) @ [last (outputs (sim s'))]"
    and "plant (sim s') = update e (plant (sim s)) (last (outputs (sim s'))) (sampletime a)"
    and "name (sim s') = name (sim s)"
  using assms
  by (auto simp: loop_body_def Let_def simulation_update_def
        split: sum.splits prod.splits if_splits)

lemma loop_body_full:
  assumes "loop_body e a ac s = Inr s'" and "deque_full (delayed_states (sim s))"
  shows "deque_full (delayed_states (sim s'))"
  by (simp add: loop_body_Inr(4) [OF assms(1)] deque_append_full [OF assms(2)])

lemma loop_body_lengths:
  assumes "loop_body e a ac s = Inr s'"
  shows "length (timestamps (sim s')) = Suc (length (timestamps (sim s)))"
    and "length (plant_states (sim s')) = Suc (length (plant_states (sim s)))"
    and "length (sensor_states (sim s')) = Suc (length (sensor_states (sim s)))"
    and "length (outputs (sim s')) = Suc (length (outputs (sim s)))"
proof -
  show "length (timestamps (sim s')) = Suc (length (timestamps (sim s)))"
    by (simp add: loop_body_Inr(2) [OF assms])
  show "length (plant_states (sim s')) = Suc (length (plant_states (sim s)))"
    by (simp add: loop_body_Inr(3) [OF assms])
  show "length (sensor_states (sim s')) = Suc (length (sensor_states (sim s)))"
    by (subst loop_body_Inr(6) [OF assms]) simp
  show "length (outputs (sim s')) = Suc (length (outputs (sim s)))"
    by (subst loop_body_Inr(7) [OF assms]) simp
qed

text \<open>
  A tick on a full delay line fails only where the generator raises, which it is asked
  to do only if the noise is switched on.
\<close>

lemma loop_body_succeeds:
  assumes "deque_full (delayed_states (sim s))"
    and "float_le (sensor_noise_std_dev a) (Fin 0) \<or>
         (\<exists>v. random_normal e (rng_draws s) (sensor_noise_std_dev a) = Inr v)"
  shows "\<exists>s'. loop_body e a ac s = Inr s'"
proof -
  have "\<exists>v d. read_sensor e a s = Inr (v, d)"
  proof (cases "float_le (sensor_noise_std_dev a) (Fin 0)")
    case True
    then show ?thesis
      using deque_front_full [OF assms(1)] by (simp add: read_sensor_def)
  next
    case False
    with assms(2) obtain w where
      "random_normal e (rng_draws s) (sensor_noise_std_dev a) = Inr w" by blast
    with False show ?thesis
      using deque_front_full [OF assms(1)] by (simp add: read_sensor_def)
  qed
  then obtain v d where rs: "read_sensor e a s = Inr (v, d)" by blast
  obtain out c where cmd:
    "(if supress_output a then (Fin 0, controller (sim s))
      else calc e (controller (sim s)) (float_add e (timestamp s) (sampletime a)) v
             (setpoint a) ac) = (out, c)"
    by fastforce
  have "deque_full (delayed_states ((sim s)\<lparr>controller := c\<rparr>))"
    using assms(1) by simp
  from simulation_update_full [OF this]
  obtain sm' where "simulation_update e ((sim s)\<lparr>controller := c\<rparr>)
      (float_add e (timestamp s) (sampletime a)) out a = Inr sm'" by blast
  with rs cmd show ?thesis
    by (simp add: loop_body_def Let_def)
qed

lemma setup_Inr:
  assumes "simulate_system_setup e a = Inr (s, ac)"
  shows "sampletime a \<noteq> Fin 0"
    and "ac = float_mul e (output_rate_limit a) (sampletime a)"
    and "\<exists>q. py_round (float_div e (delay a) (sampletime a)) = Inr q \<and> max 1 q < 2 ^ 63 \<and>
           delayed_states s =
             \<lparr>maxlen = nat (max 1 q),
              items = replicate (nat (max 1 q)) (sensable_state e (plant s))\<rparr>"
    and "timestamps s = []" and "plant_states s = []" and "sensor_states s = []"
    and "outputs s = []"
    and "\<exists>kp ki kd. PIDArduino e (sampletime a) kp ki kd (out_min a) (out_max a) =
           Inr (controller s)"
    and "\<exists>plantClass initial constants.
           plant_module e (args.plant a) = Some plantClass \<and>
           literal_eval e (initial_values a) = Inr initial \<and> is_dict initial \<and>
           literal_eval e (constant_values a) = Inr constants \<and> is_dict constants \<and>
           plantClass initial constants = Inr (plant s)"
  using assms
  by (auto simp: simulate_system_setup_def Let_def deque_extend_empty
        split: if_splits option.splits sum.splits dest!: deque_new_Inr) blast

lemma setup_full:
  assumes "simulate_system_setup e a = Inr (s, ac)"
  shows "deque_full (delayed_states s)"
  using setup_Inr(3) [OF assms] by (auto simp: deque_full_def)

section \<open>The concrete runs\<close>

lemmas instance_defs =
  p_env_def test_env_def test_args_def zero_delay_args_def exact_def Let_def

lemma setup_p_env_test_args:
  "simulate_system_setup p_env test_args = Inr (p_sim0, Fin 48)"
  by (simp add: simulate_system_setup_def instance_defs round_half_even_def deque_new_def
        deque_extend_def deque_append_def p_sim0_def numeral_2_eq_2)

lemma setup_p_env_zero_delay_args:
  "simulate_system_setup p_env zero_delay_args = Inr (z_sim0, Fin 48)"
  by (simp add: simulate_system_setup_def instance_defs round_half_even_def deque_new_def
        deque_extend_def deque_append_def z_sim0_def)

lemmas tick_defs =
  loop_body_def read_sensor_def simulation_update_def deque_front_def deque_append_def

lemma p_tick1: "loop_body p_env test_args (Fin 48) p_s0 = Inr p_s1"
  by (simp add: tick_defs instance_defs p_s0_def p_sim0_def p_s1_def)

lemma p_tick2: "loop_body p_env test_args (Fin 48) p_s1 = Inr p_s2"
  by (simp add: tick_defs instance_defs p_s1_def p_s2_def)

lemma z_tick1: "loop_body p_env zero_delay_args (Fin 48) z_s0 = Inr z_s1"
  by (simp add: tick_defs instance_defs z_s0_def z_sim0_def z_s1_def)

lemma z_tick2: "loop_body p_env zero_delay_args (Fin 48) z_s1 = Inr z_s2"
  by (simp add: tick_defs instance_defs z_s1_def z_s2_def)

lemma p_conds:
  "loop_cond p_env test_args p_s0" "loop_cond p_env test_args p_s1"
  "\<not> loop_cond p_env test_args p_s2"
  by (simp_all add: loop_cond_def instance_defs p_s0_def p_s1_def p_s2_def)

lemma z_conds:
  "loop_cond p_env zero_delay_args z_s0" "loop_cond p_env zero_delay_args z_s1"
  "\<not> loop_cond p_env zero_delay_args z_s2"
  by (simp_all add: loop_cond_def instance_defs z_s0_def z_s1_def z_s2_def)

lemma p_loop: "sim_loop p_env test_args (Fin 48) p_s0 = Some (Inr p_s2)"
proof -
  have 2: "sim_loop p_env test_args (Fin 48) p_s2 = Some (Inr p_s2)"
    by (subst sim_loop.simps) (simp add: p_conds)
  have 1: "sim_loop p_env test_args (Fin 48) p_s1 = Some (Inr p_s2)"
    by (subst sim_loop.simps) (simp add: p_conds p_tick2 2)
  show ?thesis
    by (subst sim_loop.simps) (simp add: p_conds p_tick1 1)
qed

lemma z_loop: "sim_loop p_env zero_delay_args (Fin 48) z_s0 = Some (Inr z_s2)"
proof -
  have 2: "sim_loop p_env zero_delay_args (Fin 48) z_s2 = Some (Inr z_s2)"
    by (subst sim_loop.simps) (simp add: z_conds)
  have 1: "sim_loop p_env zero_delay_args (Fin 48) z_s1 = Some (Inr z_s2)"
    by (subst sim_loop.simps) (simp add: z_conds z_tick2 2)
  show ?thesis
    by (subst sim_loop.simps) (simp add: z_conds z_tick1 1)
qed

lemma p_run: "simulate_system p_env test_args = Some (Inr p_s2)"
  using p_loop by (simp add: simulate_system_def setup_p_env_test_args p_s0_def)

lemma z_run: "simulate_system p_env zero_delay_args = Some (Inr z_s2)"
  using z_loop by (simp add: simulate_system_def setup_p_env_zero_delay_args z_s0_def)

lemma p_ticks:
  "run_ticks p_env test_args (Fin 48) 1 p_s0 = Inr p_s1"
  "run_ticks p_env test_args (Fin 48) 2 p_s0 = Inr p_s2"
  by (simp_all add: numeral_2_eq_2 p_tick1 p_tick2)

lemma z_ticks:
  "run_ticks p_env zero_delay_args (Fin 48) 1 z_s0 = Inr z_s1"
  "run_ticks p_env zero_delay_args (Fin 48) 2 z_s0 = Inr z_s2"
  by (simp_all add: numeral_2_eq_2 z_tick1 z_tick2)

lemma setup_p_env_supress_args:
  "simulate_system_setup p_env supress_args = Inr (p_sim0, Fin 48)"
  by (simp add: simulate_system_setup_def instance_defs supress_args_def round_half_even_def
        deque_new_def deque_extend_def deque_append_def p_sim0_def numeral_2_eq_2)

lemma u_tick1: "loop_body p_env supress_args (Fin 48) p_s0 = Inr u_s1"
  by (simp add: tick_defs instance_defs supress_args_def p_s0_def p_sim0_def u_s1_def)

lemma u_tick2: "loop_body p_env supress_args (Fin 48) u_s1 = Inr u_s2"
  by (simp add: tick_defs instance_defs supress_args_def u_s1_def u_s2_def)

lemma u_conds:
  "loop_cond p_env supress_args p_s0" "loop_cond p_env supress_args u_s1"
  "\<not> loop_cond p_env supress_args u_s2"
  by (simp_all add: loop_cond_def instance_defs supress_args_def p_s0_def u_s1_def u_s2_def)

lemma u_loop: "sim_loop p_env supress_args (Fin 48) p_s0 = Some (Inr u_s2)"
proof -
  have 2: "sim_loop p_env supress_args (Fin 48) u_s2 = Some (Inr u_s2)"
    by (subst sim_loop.simps) (simp add: u_conds)
  have 1: "sim_loop p_env supress_args (Fin 48) u_s1 = Some (Inr u_s2)"
    by (subst sim_loop.simps) (simp add: u_conds u_tick2 2)
  show ?thesis
    by (subst sim_loop.simps) (simp add: u_conds u_tick1 1)
qed

lemma u_run: "simulate_system p_env supress_args = Some (Inr u_s2)"
  using u_loop by (simp add: simulate_system_def setup_p_env_supress_args p_s0_def)

lemma list_values_run: "simulate_system p_env list_values_args = Some (Inl AssertionError)"
  by (simp add: simulate_system_def simulate_system_setup_def instance_defs
        list_values_args_def round_half_even_def)

section \<open>The delay line during a run\<close>

lemma run_ticks_Suc_Inr:
  "run_ticks e a ac (Suc n) s = Inr r \<Longrightarrow>
   \<exists>s'. run_ticks e a ac n s = Inr s' \<and> loop_body e a ac s' = Inr r"
proof (induction n arbitrary: s)
  case 0
  then show ?case by (simp split: sum.splits)
next
  case (Suc n)
  from Suc.prems obtain x where x: "loop_body e a ac s = Inr x"
      "run_ticks e a ac (Suc n) x = Inr r"
    by (auto split: sum.splits)
  from Suc.IH [OF x(2)] obtain s' where
    "run_ticks e a ac n x = Inr s'" "loop_body e a ac s' = Inr r" by blast
  with x(1) show ?case by simp
qed

text \<open>
  After \<open>t\<close> ticks the delay line holds the last \<open>n\<close> entries of the sequence made of
  \<open>n\<close> copies of the initial observable and the \<open>t\<close> recorded plant states, and the
  plant's observable is the last entry.
\<close>

lemma run_ticks_history:
  assumes init: "delayed_states (sim s0) = \<lparr>maxlen = n, items = replicate n x0\<rparr>"
      "plant_states (sim s0) = []" "sensable_state e (plant (sim s0)) = x0" "1 \<le> n"
    and run: "run_ticks e a ac t s0 = Inr s"
  shows "length (plant_states (sim s)) = t \<and>
         maxlen (delayed_states (sim s)) = n \<and>
         items (delayed_states (sim s)) = drop t (replicate n x0 @ plant_states (sim s)) \<and>
         sensable_state e (plant (sim s)) = last (x0 # plant_states (sim s))"
  using run
proof (induction t arbitrary: s)
  case 0
  with init show ?case by simp
next
  case (Suc t)
  from run_ticks_Suc_Inr [OF Suc.prems] obtain s' where
    s': "run_ticks e a ac t s0 = Inr s'" and body: "loop_body e a ac s' = Inr s" by blast
  let ?P = "plant_states (sim s')" and ?y = "sensable_state e (plant (sim s))"
  from Suc.IH [OF s'] have
    len: "length ?P = t" and ml: "maxlen (delayed_states (sim s')) = n" and
    it: "items (delayed_states (sim s')) = drop t (replicate n x0 @ ?P)" by simp_all
  have full: "deque_full (delayed_states (sim s'))"
    using init(4) by (simp add: deque_full_def ml it len)
  have ps: "plant_states (sim s) = ?P @ [?y]"
    using loop_body_Inr(3) [OF body] .
  have ds: "delayed_states (sim s) = deque_append (delayed_states (sim s')) ?y"
    using loop_body_Inr(4) [OF body] .
  have "items (delayed_states (sim s)) = tl (drop t (replicate n x0 @ ?P)) @ [?y]"
    by (simp add: ds deque_append_full_items [OF full] it)
  also have "\<dots> = drop (Suc t) (replicate n x0 @ ?P) @ [?y]"
    by (simp only: drop_Suc tl_drop)
  also have "\<dots> = drop (Suc t) (replicate n x0 @ plant_states (sim s))"
    using init(4) by (simp add: ps len)
  finally have "items (delayed_states (sim s)) =
      drop (Suc t) (replicate n x0 @ plant_states (sim s))" .
  moreover have "maxlen (delayed_states (sim s)) = n"
    by (simp add: ds deque_append_maxlen ml)
  ultimately show ?case by (simp add: ps len)
qed

lemma run_ticks_front:
  assumes init: "delayed_states (sim s0) = \<lparr>maxlen = n, items = replicate n x0\<rparr>"
      "plant_states (sim s0) = []" "sensable_state e (plant (sim s0)) = x0" "1 \<le> n"
    and run: "run_ticks e a ac t s0 = Inr s"
  shows "deque_front (delayed_states (sim s)) =
           Inr ((replicate n x0 @ plant_states (sim s)) ! t)"
    and "length (items (delayed_states (sim s))) = n"
    and "n = 1 \<Longrightarrow> deque_front (delayed_states (sim s)) = Inr (sensable_state e (plant (sim s)))"
proof -
  let ?P = "plant_states (sim s)"
  from run_ticks_history [OF init run] have
    len: "length ?P = t" and ml: "maxlen (delayed_states (sim s)) = n" and
    it: "items (delayed_states (sim s)) = drop t (replicate n x0 @ ?P)" and
    pl: "sensable_state e (plant (sim s)) = last (x0 # ?P)" by simp_all
  show n: "length (items (delayed_states (sim s))) = n"
    by (simp add: it len)
  have full: "deque_full (delayed_states (sim s))"
    using init(4) by (simp add: deque_full_def ml n)
  have "hd (drop t (replicate n x0 @ ?P)) = (replicate n x0 @ ?P) ! t"
    using init(4) by (intro hd_drop_conv_nth) (simp add: len)
  then show front: "deque_front (delayed_states (sim s)) = Inr ((replicate n x0 @ ?P) ! t)"
    by (simp add: deque_front_full [OF full] it)
  show "deque_front (delayed_states (sim s)) = Inr (sensable_state e (plant (sim s)))"
    if "n = 1"
  proof -
    have "last (x0 # ?P) = (x0 # ?P) ! (length (x0 # ?P) - 1)"
      by (rule last_conv_nth) simp
    then have "(x0 # ?P) ! t = last (x0 # ?P)"
      by (simp only: len list.size length_Cons diff_Suc_1 add_Suc_right add_0_right)
    with front that pl show ?thesis by simp
  qed
qed

section \<open>Runs with the noise switched off\<close>

lemma setup_generator:
  "simulate_system_setup (e\<lparr>random_normal := g\<rparr>) a = simulate_system_setup e a"
  by (simp add: simulate_system_setup_def Let_def
        cong: sum.case_cong option.case_cong if_cong)

lemma loop_cond_generator: "loop_cond (e\<lparr>random_normal := g\<rparr>) a s = loop_cond e a s"
  by (simp add: loop_cond_def)

lemma loop_body_quiet_generator:
  assumes "float_le (sensor_noise_std_dev a) (Fin 0)"
  shows "loop_body (e\<lparr>random_normal := g\<rparr>) a ac s = loop_body e a ac s"
  using assms
  by (simp add: loop_body_def read_sensor_def simulation_update_def Let_def
        cong: sum.case_cong prod.case_cong if_cong)

lemma simulate_system_quiet_generator:
  assumes "float_le (sensor_noise_std_dev a) (Fin 0)"
  shows "simulate_system (e\<lparr>random_normal := g\<rparr>) a = simulate_system e a"
proof -
  have "sim_loop (e\<lparr>random_normal := g\<rparr>) a ac s = sim_loop e a ac s" for ac s
    by (rule sim_loop_cong_body)
      (simp_all add: loop_body_quiet_generator [OF assms] loop_cond_generator)
  then show ?thesis
    by (simp add: simulate_system_def setup_generator split: sum.splits prod.splits)
qed

lemma loop_body_quiet_draws:
  assumes "float_le (sensor_noise_std_dev a) (Fin 0)" and "loop_body e a ac s = Inr s'"
  shows "rng_draws s' = rng_draws s"
  using assms(2)
  by (auto simp: loop_body_def Let_def read_sensor_quiet [OF assms(1)]
        split: sum.splits prod.splits)

lemma simulate_system_quiet_draws:
  assumes "float_le (sensor_noise_std_dev a) (Fin 0)"
    and "simulate_system e a = Some (Inr r)"
  shows "rng_draws r = 0"
proof -
  from assms(2) obtain s0 ac where
    run: "sim_loop e a ac \<lparr>sim = s0, timestamp = Fin 0, rng_draws = 0\<rparr> = Some (Inr r)"
    by (auto simp: simulate_system_def split: sum.splits)
  have "rng_draws r = 0 \<and> \<not> loop_cond e a r"
    by (rule sim_loop_Inr_rule [OF run, of "\<lambda>s. rng_draws s = 0"])
      (simp_all add: loop_body_quiet_draws [OF assms(1)])
  then show ?thesis by simp
qed

text \<open>The outcome of a run does not depend on a noise level that switches the noise off.\<close>

lemma simulate_system_quiet_level:
  assumes "float_le (sensor_noise_std_dev a) (Fin 0)"
  shows "simulate_system e (a\<lparr>sensor_noise_std_dev := Fin 0\<rparr>) = simulate_system e a"
proof -
  let ?a = "a\<lparr>sensor_noise_std_dev := Fin 0\<rparr>"
  have "sim_loop e ?a ac s = sim_loop e a ac s" for ac s
    by (rule sim_loop_cong_body)
      (use assms in \<open>simp_all add: loop_body_def read_sensor_def simulation_update_def
         loop_cond_def Let_def cong: sum.case_cong prod.case_cong if_cong\<close>)
  moreover have "simulate_system_setup e ?a = simulate_system_setup e a"
    by (simp add: simulate_system_setup_def Let_def
          cong: sum.case_cong option.case_cong if_cong)
  ultimately show ?thesis
    by (simp add: simulate_system_def split: sum.splits prod.splits)
qed

section \<open>Runs with the output suppressed\<close>

lemma setup_calc: "simulate_system_setup (e\<lparr>calc := f\<rparr>) a = simulate_system_setup e a"
  by (simp add: simulate_system_setup_def Let_def
        cong: sum.case_cong option.case_cong if_cong)

lemma loop_cond_calc: "loop_cond (e\<lparr>calc := f\<rparr>) a s = loop_cond e a s"
  by (simp add: loop_cond_def)

lemma loop_body_supress_calc:
  assumes "supress_output a"
  shows "loop_body (e\<lparr>calc := f\<rparr>) a ac s = loop_body e a ac s"
  using assms
  by (simp add: loop_body_def read_sensor_def simulation_update_def Let_def
        cong: sum.case_cong prod.case_cong if_cong)

lemma simulate_system_supress_calc:
  assumes "supress_output a"
  shows "simulate_system (e\<lparr>calc := f\<rparr>) a = simulate_system e a"
proof -
  have "sim_loop (e\<lparr>calc := f\<rparr>) a ac s = sim_loop e a ac s" for ac s
    by (rule sim_loop_cong_body)
      (simp_all add: loop_body_supress_calc [OF assms] loop_cond_calc)
  then show ?thesis
    by (simp add: simulate_system_def setup_calc split: sum.splits prod.splits)
qed

lemma loop_body_supress_Inr:
  assumes "supress_output a" and "loop_body e a ac s = Inr s'"
  shows "outputs (sim s') = outputs (sim s) @ [Fin 0]"
    and "controller (sim s') = controller (sim s)"
    and "plant (sim s') = update e (plant (sim s)) (Fin 0) (sampletime a)"
  using assms
  by (auto simp: loop_body_def Let_def simulation_update_def
        split: sum.splits prod.splits)

lemma sim_loop_supress:
  assumes sup: "supress_output a"
    and run: "sim_loop e a ac s = Some (Inr r)"
    and init: "timestamps (sim s) = []" "outputs (sim s) = []"
  shows "outputs (sim r) = replicate (length (timestamps (sim r))) (Fin 0) \<and>
         controller (sim r) = controller (sim s) \<and>
         plant (sim r) =
           ((\<lambda>p. update e p (Fin 0) (sampletime a)) ^^ length (timestamps (sim r)))
             (plant (sim s))"
proof -
  let ?I = "\<lambda>r. outputs (sim r) = replicate (length (timestamps (sim r))) (Fin 0) \<and>
         controller (sim r) = controller (sim s) \<and>
         plant (sim r) =
           ((\<lambda>p. update e p (Fin 0) (sampletime a)) ^^ length (timestamps (sim r)))
             (plant (sim s))"
  have start: "?I s" using init by simp
  have step: "?I s2" if "?I s1" "loop_body e a ac s1 = Inr s2" for s1 s2
    using that(1) loop_body_supress_Inr [OF sup that(2)] loop_body_Inr(2) [OF that(2)]
    by (simp add: replicate_append_same)
  from sim_loop_Inr_rule [OF run, of ?I, OF start] step show ?thesis by blast
qed

section \<open>The number of ticks\<close>

text \<open>
  Whatever the arithmetic does, the four series grow together, the clock is the last
  recorded timestamp, and every tick but the last ends before the horizon.
\<close>

lemma sim_loop_series:
  assumes run: "sim_loop e a ac s = Some (Inr r)"
    and init: "timestamps (sim s) = []" "plant_states (sim s) = []"
      "sensor_states (sim s) = []" "outputs (sim s) = []" "timestamp s = Fin 0"
  shows "length (plant_states (sim r)) = length (timestamps (sim r)) \<and>
         length (sensor_states (sim r)) = length (timestamps (sim r)) \<and>
         length (outputs (sim r)) = length (timestamps (sim r)) \<and>
         timestamp r = last (Fin 0 # timestamps (sim r)) \<and>
         (\<forall>ts \<in> set (butlast (Fin 0 # timestamps (sim r))).
            float_lt ts (float_mul e (interval a) (Fin 60))) \<and>
         \<not> float_lt (last (Fin 0 # timestamps (sim r))) (float_mul e (interval a) (Fin 60))"
proof -
  let ?H = "float_mul e (interval a) (Fin 60)"
  let ?I = "\<lambda>r. length (plant_states (sim r)) = length (timestamps (sim r)) \<and>
         length (sensor_states (sim r)) = length (timestamps (sim r)) \<and>
         length (outputs (sim r)) = length (timestamps (sim r)) \<and>
         timestamp r = last (Fin 0 # timestamps (sim r)) \<and>
         (\<forall>ts \<in> set (butlast (Fin 0 # timestamps (sim r))). float_lt ts ?H)"
  have start: "?I s" using init by simp
  have step: "?I s2" if inv: "?I s1" and c: "loop_cond e a s1"
    and b: "loop_body e a ac s1 = Inr s2" for s1 s2
  proof -
    have ts: "timestamps (sim s2) = timestamps (sim s1) @ [timestamp s2]"
      using loop_body_Inr(2) [OF b] .
    have "butlast (Fin 0 # timestamps (sim s2)) = Fin 0 # timestamps (sim s1)"
      by (simp add: ts butlast_append)
    also have "\<dots> = butlast (Fin 0 # timestamps (sim s1)) @ [timestamp s1]"
      using inv by (metis append_butlast_last_id list.distinct(1))
    finally have bl: "butlast (Fin 0 # timestamps (sim s2)) =
        butlast (Fin 0 # timestamps (sim s1)) @ [timestamp s1]" .
    have "\<forall>ts \<in> set (butlast (Fin 0 # timestamps (sim s2))). float_lt ts ?H"
      unfolding bl using inv c by (auto simp: loop_cond_def)
    moreover have "timestamp s2 = last (Fin 0 # timestamps (sim s2))"
      by (simp add: ts)
    ultimately show ?thesis
      using inv loop_body_lengths [OF b] by simp
  qed
  from sim_loop_Inr_rule [OF run, of ?I, OF start] step
  have "?I r" and "\<not> loop_cond e a r" by blast+
  then show ?thesis by (simp add: loop_cond_def)
qed

text \<open>
  The least number of steps of length \<open>st\<close> that reach \<open>h\<close>.
\<close>

lemma steps_before:
  assumes "0 < st" and "k < nat \<lceil>h / st\<rceil>"
  shows "real k * st < h"
proof -
  from assms(2) have "int k < \<lceil>h / st\<rceil>" by simp
  then have "real_of_int (int k) < h / st" by (simp only: less_ceiling_iff)
  then have "real k < h / st" by simp
  with assms(1) show ?thesis by (simp add: pos_less_divide_eq)
qed

lemma steps_reached:
  assumes "0 < st"
  shows "\<not> real (nat \<lceil>h / st\<rceil>) * st < h"
proof -
  have "\<lceil>h / st\<rceil> \<le> int (nat \<lceil>h / st\<rceil>)" by simp
  then have "h / st \<le> real_of_int (int (nat \<lceil>h / st\<rceil>))"
    by (simp only: ceiling_le_iff)
  then have "h / st \<le> real (nat \<lceil>h / st\<rceil>)" by (simp only: of_int_of_nat_eq)
  with assms show ?thesis by (simp add: pos_divide_le_eq not_less)
qed

text \<open>
  When the clock's additions are exact and no tick raises, the loop returns after
  exactly that number of ticks.
\<close>

lemma sim_loop_exact:
  assumes H: "float_mul e (interval a) (Fin 60) = Fin h"
    and st: "sampletime a = Fin st" "0 < st"
    and exact: "\<forall>k < nat \<lceil>h / st\<rceil>.
                  float_add e (Fin (real k * st)) (Fin st) = Fin (real (Suc k) * st)"
    and quiet: "float_le (sensor_noise_std_dev a) (Fin 0) \<or>
                (\<forall>k. \<exists>v. random_normal e k (sensor_noise_std_dev a) = Inr v)"
    and s: "timestamp s = Fin (real k * st)" "k \<le> nat \<lceil>h / st\<rceil>"
      "deque_full (delayed_states (sim s))"
      "timestamps (sim s) = map (\<lambda>j. Fin (real j * st)) [1..<Suc k]"
  shows "\<exists>r. sim_loop e a ac s = Some (Inr r) \<and>
           timestamps (sim r) = map (\<lambda>j. Fin (real j * st)) [1..<Suc (nat \<lceil>h / st\<rceil>)]"
  using s
proof (induction "nat \<lceil>h / st\<rceil> - k" arbitrary: s k)
  case 0
  from "0.hyps" "0.prems"(2) have k: "k = nat \<lceil>h / st\<rceil>" by linarith
  have "\<not> loop_cond e a s"
    using steps_reached [OF st(2), of h] by (simp add: loop_cond_def H "0.prems"(1) k)
  then have "sim_loop e a ac s = Some (Inr s)"
    by (subst sim_loop.simps) simp
  with "0.prems"(4) k show ?case by simp
next
  case (Suc m)
  from Suc.hyps(2) have k: "k < nat \<lceil>h / st\<rceil>" by linarith
  have c: "loop_cond e a s"
    using steps_before [OF st(2) k] by (simp add: loop_cond_def H Suc.prems(1))
  from loop_body_succeeds [OF Suc.prems(3), where a = a and e = e and ac = ac] quiet
  obtain s' where b: "loop_body e a ac s = Inr s'" by blast
  have t': "timestamp s' = Fin (real (Suc k) * st)"
    using loop_body_Inr(1) [OF b] exact k by (simp add: Suc.prems(1) st(1))
  have ts': "timestamps (sim s') = map (\<lambda>j. Fin (real j * st)) [1..<Suc (Suc k)]"
    using loop_body_Inr(2) [OF b] by (simp add: Suc.prems(4) t')
  have m: "m = nat \<lceil>h / st\<rceil> - Suc k"
    using Suc.hyps(2) by linarith
  from Suc.hyps(1) [OF m t' _ loop_body_full [OF b Suc.prems(3)] ts'] k
  obtain r where "sim_loop e a ac s' = Some (Inr r)"
    "timestamps (sim r) = map (\<lambda>j. Fin (real j * st)) [1..<Suc (nat \<lceil>h / st\<rceil>)]"
    by auto
  with c b show ?case
    by (subst sim_loop.simps) simp
qed

section \<open>The contract of the PID controller\<close>

lemma spec_calc_last_output:
  "spec_calc c now x sp m = (out, c') \<Longrightarrow>
   last_output c' = out \<and> pid_out_min c' = pid_out_min c \<and> pid_out_max c' = pid_out_max c"
  by (auto simp: spec_calc_def Let_def split: if_splits)


lemma spec_calc_range:
  assumes "pid_out_min c \<le> pid_out_max c" and "0 \<le> m"
    and "pid_out_min c \<le> last_output c" and "last_output c \<le> pid_out_max c"
    and "spec_calc c now x sp m = (out, c')"
  shows "pid_out_min c \<le> out \<and> out \<le> pid_out_max c"
  using assms by (auto simp: spec_calc_def Let_def split: if_splits)

lemma pid0_constructed: "spec_PIDArduino 48 1 0 0 0 100 = Inr pid0"
  by (simp add: spec_PIDArduino_def pid0_def)

lemma narrow0_constructed: "spec_PIDArduino 48 0 0 0 5 10 = Inr narrow0"
  by (simp add: spec_PIDArduino_def narrow0_def)

lemma pid0_first:
  "spec_calc pid0 48 40 45 2 =
     (2, pid0\<lparr>integral := 240, last_input := 40, last_time := 48, last_output := 2\<rparr>)"
  by (simp add: spec_calc_def pid0_def Let_def)



section \<open>The recorded sensor states\<close>

text \<open>
  C1. A tick on a full delay line feeds the controller the front of the line as it is
  before the tick, plus the noise, and records in \<^verbatim>\<open>sensor_states\<close> the front of the line
  as it is after the tick's push: the second entry of the line before the tick, or the
  plant's new observable if the capacity is 1. The recorded value is the one that the
  next tick senses, and is fed to the controller then, before noise; it is not in
  general the value fed on the tick that records it.
\<close>

theorem recorded_sensor_state:
  assumes "loop_body e a ac s = Inr s'"
    and "deque_full (delayed_states (sim s))"
  shows "\<exists>fed noise.
           read_sensor e a s = Inr (fed, rng_draws s') \<and>
           fed = float_add e (hd (items (delayed_states (sim s)))) noise \<and>
           (float_le (sensor_noise_std_dev a) (Fin 0) \<longrightarrow> noise = Fin 0) \<and>
           (\<not> float_le (sensor_noise_std_dev a) (Fin 0) \<longrightarrow>
              random_normal e (rng_draws s) (sensor_noise_std_dev a) = Inr noise) \<and>
           (\<not> supress_output a \<longrightarrow>
              (last (outputs (sim s')), controller (sim s')) =
                calc e (controller (sim s)) (timestamp s') fed (setpoint a) ac) \<and>
           sensor_states (sim s') =
             sensor_states (sim s) @
               [hd (tl (items (delayed_states (sim s))) @ [sensable_state e (plant (sim s'))])] \<and>
           deque_front (delayed_states (sim s')) = Inr (last (sensor_states (sim s'))) \<and>
           (float_le (sensor_noise_std_dev a) (Fin 0) \<longrightarrow>
              read_sensor e a s' =
                Inr (float_add e (last (sensor_states (sim s'))) (Fin 0), rng_draws s'))"
proof -
  let ?d = "delayed_states (sim s)"
  have front: "deque_front ?d = Inr (hd (items ?d))"
    using deque_front_full [OF assms(2)] .
  have front': "deque_front (deque_append ?d x) = Inr (hd (tl (items ?d) @ [x]))" for x
    using deque_front_full [OF deque_append_full [OF assms(2)], of x]
    by (simp add: deque_append_full_items [OF assms(2)])
  show ?thesis
    using assms(1)
    by (auto simp: loop_body_def read_sensor_def simulation_update_def Let_def front front'
          split: sum.splits prod.splits if_splits)
qed

theorem recorded_sensor_state_witness:
  "loop_body p_env test_args (Fin 48) p_s1 = Inr p_s2 \<and>
   deque_full (delayed_states (sim p_s1)) \<and>
   sensor_states (sim p_s2) = sensor_states (sim p_s1) @ [Fin 328] \<and>
   deque_front (delayed_states (sim p_s2)) = Inr (Fin 328)"
proof -
  have full: "deque_full (delayed_states (sim p_s1))"
    by (simp add: deque_full_def p_s1_def)
  from recorded_sensor_state [OF p_tick2 full]
  have "sensor_states (sim p_s2) =
      sensor_states (sim p_s1) @
        [hd (tl (items (delayed_states (sim p_s1))) @ [sensable_state p_env (plant (sim p_s2))])]"
    and "deque_front (delayed_states (sim p_s2)) = Inr (last (sensor_states (sim p_s2)))"
    by blast+
  moreover have "hd (tl (items (delayed_states (sim p_s1))) @
      [sensable_state p_env (plant (sim p_s2))]) = Fin 328"
    by (simp add: p_s1_def)
  ultimately show ?thesis
    using p_tick2 full by simp
qed

text \<open>
  The second tick of the run with a delay of 120 seconds: the controller is fed 40 and
  answers with the output 5, and the tick records the sensor state 328.
\<close>

theorem recorded_sensor_state_differs:
  "simulate_system_setup p_env test_args = Inr (sim p_s0, Fin 48) \<and>
   run_ticks p_env test_args (Fin 48) 1 p_s0 = Inr p_s1 \<and>
   read_sensor p_env test_args p_s1 = Inr (Fin 40, 0) \<and>
   calc p_env (controller (sim p_s1)) (Fin 96) (Fin 40) (setpoint test_args) (Fin 48) =
     (Fin 5, ()) \<and>
   loop_body p_env test_args (Fin 48) p_s1 = Inr p_s2 \<and>
   outputs (sim p_s2) = outputs (sim p_s1) @ [Fin 5] \<and>
   sensor_states (sim p_s2) = sensor_states (sim p_s1) @ [Fin 328]"
proof -
  have "read_sensor p_env test_args p_s1 = Inr (Fin 40, 0)"
    by (simp add: read_sensor_def deque_front_def instance_defs p_s1_def)
  moreover have "calc p_env (controller (sim p_s1)) (Fin 96) (Fin 40) (setpoint test_args)
      (Fin 48) = (Fin 5, ())"
    by (simp add: instance_defs)
  moreover have "outputs (sim p_s2) = outputs (sim p_s1) @ [Fin 5]"
    "sensor_states (sim p_s2) = sensor_states (sim p_s1) @ [Fin 328]"
    by (simp_all add: p_s1_def p_s2_def)
  moreover have "simulate_system_setup p_env test_args = Inr (sim p_s0, Fin 48)"
    using setup_p_env_test_args by (simp add: p_s0_def)
  ultimately show ?thesis
    using p_ticks(1) p_tick2 by simp
qed

section \<open>The lengths of the series\<close>

text \<open>
  C2. In every run that returns, the four series have the same length, every recorded
  timestamp but the last is below the horizon \<open>interval * 60\<close>, and the last one (or 0,
  if there is none) is not: the loop stops with the first tick whose timestamp reaches
  the horizon. If moreover the horizon is the finite number \<open>h\<close>, the sample time is a
  positive number \<open>st\<close>, the additions of the clock are exact up to the horizon and no
  tick raises, then the run returns, its timestamps are the multiples \<open>st, 2 st, \<dots>\<close>
  and the common length is the least \<open>n\<close> with \<open>n * st \<ge> h\<close>, which is
  \<open>h / st\<close> rounded up, not rounded to the nearest integer.
\<close>

theorem series_lengths:
  assumes "simulate_system_setup e a = Inr (s0, ac)"
  shows "(\<forall>r. simulate_system e a = Some (Inr r) \<longrightarrow>
            length (plant_states (sim r)) = length (timestamps (sim r)) \<and>
            length (sensor_states (sim r)) = length (timestamps (sim r)) \<and>
            length (outputs (sim r)) = length (timestamps (sim r)) \<and>
            (\<forall>ts \<in> set (butlast (Fin 0 # timestamps (sim r))).
               float_lt ts (float_mul e (interval a) (Fin 60))) \<and>
            \<not> float_lt (last (Fin 0 # timestamps (sim r)))
                (float_mul e (interval a) (Fin 60))) \<and>
         (\<forall>h st.
            float_mul e (interval a) (Fin 60) = Fin h \<and> sampletime a = Fin st \<and> 0 < st \<and>
            (\<forall>k < nat \<lceil>h / st\<rceil>.
               float_add e (Fin (real k * st)) (Fin st) = Fin (real (Suc k) * st)) \<and>
            (float_le (sensor_noise_std_dev a) (Fin 0) \<or>
             (\<forall>k. \<exists>v. random_normal e k (sensor_noise_std_dev a) = Inr v)) \<longrightarrow>
            (\<exists>r. simulate_system e a = Some (Inr r) \<and>
                 timestamps (sim r) =
                   map (\<lambda>j. Fin (real j * st)) [1..<Suc (nat \<lceil>h / st\<rceil>)] \<and>
                 length (timestamps (sim r)) = nat \<lceil>h / st\<rceil> \<and>
                 length (plant_states (sim r)) = nat \<lceil>h / st\<rceil> \<and>
                 length (sensor_states (sim r)) = nat \<lceil>h / st\<rceil> \<and>
                 length (outputs (sim r)) = nat \<lceil>h / st\<rceil>))"
proof -
  let ?s = "\<lparr>sim = s0, timestamp = Fin 0, rng_draws = 0\<rparr>"
  have sys: "simulate_system e a = sim_loop e a ac ?s"
    using assms by (simp add: simulate_system_def)
  have init: "timestamps (sim ?s) = []" "plant_states (sim ?s) = []"
      "sensor_states (sim ?s) = []" "outputs (sim ?s) = []" "timestamp ?s = Fin 0"
    by (simp_all add: setup_Inr(4,5,6,7) [OF assms])
  have general: "length (plant_states (sim r)) = length (timestamps (sim r)) \<and>
            length (sensor_states (sim r)) = length (timestamps (sim r)) \<and>
            length (outputs (sim r)) = length (timestamps (sim r)) \<and>
            (\<forall>ts \<in> set (butlast (Fin 0 # timestamps (sim r))).
               float_lt ts (float_mul e (interval a) (Fin 60))) \<and>
            \<not> float_lt (last (Fin 0 # timestamps (sim r)))
                (float_mul e (interval a) (Fin 60))"
    if "simulate_system e a = Some (Inr r)" for r
    using sim_loop_series [OF that [unfolded sys] init] by blast
  have exact: "\<exists>r. simulate_system e a = Some (Inr r) \<and>
                 timestamps (sim r) =
                   map (\<lambda>j. Fin (real j * st)) [1..<Suc (nat \<lceil>h / st\<rceil>)] \<and>
                 length (timestamps (sim r)) = nat \<lceil>h / st\<rceil> \<and>
                 length (plant_states (sim r)) = nat \<lceil>h / st\<rceil> \<and>
                 length (sensor_states (sim r)) = nat \<lceil>h / st\<rceil> \<and>
                 length (outputs (sim r)) = nat \<lceil>h / st\<rceil>"
    if H: "float_mul e (interval a) (Fin 60) = Fin h" and st: "sampletime a = Fin st" "0 < st"
      and ex: "\<forall>k < nat \<lceil>h / st\<rceil>.
               float_add e (Fin (real k * st)) (Fin st) = Fin (real (Suc k) * st)"
      and quiet: "float_le (sensor_noise_std_dev a) (Fin 0) \<or>
             (\<forall>k. \<exists>v. random_normal e k (sensor_noise_std_dev a) = Inr v)"
    for h st
  proof -
    have s: "timestamp ?s = Fin (real 0 * st)" "0 \<le> nat \<lceil>h / st\<rceil>"
        "deque_full (delayed_states (sim ?s))"
        "timestamps (sim ?s) = map (\<lambda>j. Fin (real j * st)) [1..<Suc 0]"
      using setup_full [OF assms] setup_Inr(4) [OF assms] by simp_all
    from sim_loop_exact [OF H st ex quiet s, of ac]
    obtain r where r: "sim_loop e a ac ?s = Some (Inr r)"
      "timestamps (sim r) = map (\<lambda>j. Fin (real j * st)) [1..<Suc (nat \<lceil>h / st\<rceil>)]"
      by blast
    have "length (timestamps (sim r)) = length [1..<Suc (nat \<lceil>h / st\<rceil>)]"
      by (simp only: r(2) length_map)
    then have len: "length (timestamps (sim r)) = nat \<lceil>h / st\<rceil>"
      by (simp only: length_upt diff_Suc_1)
    from general [of r] r(1) len show ?thesis
      by (simp add: sys r(2))
  qed
  from general exact show ?thesis by blast
qed

theorem series_lengths_witness:
  "simulate_system_setup p_env test_args = Inr (p_sim0, Fin 48) \<and>
   simulate_system p_env test_args = Some (Inr p_s2) \<and>
   length (timestamps (sim p_s2)) = nat \<lceil>(60 :: real) / 48\<rceil> \<and>
   length (sensor_states (sim p_s2)) = length (timestamps (sim p_s2))"
proof -
  have hyps: "float_mul p_env (interval test_args) (Fin 60) = Fin 60"
    "sampletime test_args = Fin 48" "(0 :: real) < 48"
    "\<forall>k < nat \<lceil>(60 :: real) / 48\<rceil>.
       float_add p_env (Fin (real k * 48)) (Fin 48) = Fin (real (Suc k) * 48)"
    "float_le (sensor_noise_std_dev test_args) (Fin 0)"
    by (simp_all add: instance_defs algebra_simps)
  from series_lengths [OF setup_p_env_test_args] hyps
  have "\<exists>r. simulate_system p_env test_args = Some (Inr r) \<and>
          length (timestamps (sim r)) = nat \<lceil>(60 :: real) / 48\<rceil> \<and>
          length (sensor_states (sim r)) = nat \<lceil>(60 :: real) / 48\<rceil>"
    by blast
  with p_run setup_p_env_test_args show ?thesis by auto
qed

text \<open>
  The run of one minute in steps of 48 seconds makes two ticks, whereas the quotient
  \<open>60 / 48 = 1.25\<close> is rounded to 1.
\<close>

theorem tick_count_is_not_rounded_quotient:
  "simulate_system p_env test_args = Some (Inr p_s2) \<and>
   length (timestamps (sim p_s2)) = 2 \<and>
   length (sensor_states (sim p_s2)) = 2 \<and>
   length (outputs (sim p_s2)) = 2 \<and>
   length (plant_states (sim p_s2)) = 2 \<and>
   float_div p_env (float_mul p_env (interval test_args) (Fin 60)) (sampletime test_args) =
     Fin (5 / 4) \<and>
   py_round (Fin (5 / 4)) = Inr 1"
proof -
  have "float_div p_env (float_mul p_env (interval test_args) (Fin 60)) (sampletime test_args) =
     Fin (5 / 4)"
    by (simp add: instance_defs)
  moreover have "py_round (Fin (5 / 4)) = Inr 1"
    by (simp add: round_half_even_examples)
  moreover have "length (timestamps (sim p_s2)) = 2" "length (sensor_states (sim p_s2)) = 2"
    "length (outputs (sim p_s2)) = 2" "length (plant_states (sim p_s2)) = 2"
    by (simp_all add: p_s2_def)
  ultimately show ?thesis using p_run by simp
qed

section \<open>The capacity of the delay line and its contents\<close>

text \<open>
  C3. The capacity of the delay line is \<open>max(1, round(q))\<close>, where \<open>q\<close> is the
  binary64 quotient of the delay by the sample time: it is at least 1; it is 1 whenever
  \<open>q\<close> is below 1.5, so in particular for a quotient of 0, which is what a delay of 0
  gives; from 1.5 on it is the integer nearest to \<open>q\<close>, the even one of the two in a
  tie. The capacity stays the same during the run and the line stays full. After \<open>t\<close>
  ticks, the value at its front, which the next tick senses, is entry \<open>t\<close> of the
  sequence made of capacity-many copies of the plant's initial observable followed by
  the recorded plant states. With capacity \<open>n\<close> the sensed value is therefore
  \<open>n - 1\<close> updates older than the observable that the plant has when it is sensed,
  and with capacity 1, hence with a delay of 0, it is that present observable itself:
  the lag is 0 ticks, not one.
\<close>

theorem delay_line_capacity:
  assumes "simulate_system_setup e a = Inr (s0, ac)"
    and "run_ticks e a ac t \<lparr>sim = s0, timestamp = Fin 0, rng_draws = 0\<rparr> = Inr s"
  shows "\<exists>q n. float_div e (delay a) (sampletime a) = Fin q \<and>
           maxlen (delayed_states s0) = n \<and>
           int n = max 1 (round_half_even q) \<and>
           1 \<le> n \<and>
           (q < 3 / 2 \<longrightarrow> n = 1) \<and>
           (float_div e (delay a) (sampletime a) = Fin 0 \<longrightarrow> n = 1) \<and>
           (3 / 2 \<le> q \<longrightarrow>
              \<bar>real n - q\<bar> \<le> 1 / 2 \<and> (\<bar>real n - q\<bar> = 1 / 2 \<longrightarrow> even n)) \<and>
           maxlen (delayed_states (sim s)) = n \<and>
           length (items (delayed_states (sim s))) = n \<and>
           length (plant_states (sim s)) = t \<and>
           deque_front (delayed_states (sim s)) =
             Inr ((replicate n (sensable_state e (plant s0)) @ plant_states (sim s)) ! t) \<and>
           (n = 1 \<longrightarrow>
              deque_front (delayed_states (sim s)) = Inr (sensable_state e (plant (sim s))))"
proof -
  from setup_Inr(3) [OF assms(1)] obtain r where
    r: "py_round (float_div e (delay a) (sampletime a)) = Inr r" and
    ds: "delayed_states s0 =
           \<lparr>maxlen = nat (max 1 r),
            items = replicate (nat (max 1 r)) (sensable_state e (plant s0))\<rparr>"
    by blast
  from r obtain q where q: "float_div e (delay a) (sampletime a) = Fin q"
      and rq: "r = round_half_even q"
    by (cases "float_div e (delay a) (sampletime a)") auto
  define n where "n = nat (max 1 r)"
  let ?s0 = "\<lparr>sim = s0, timestamp = Fin 0, rng_draws = 0\<rparr>"
  have n1: "1 \<le> n" and nr: "int n = max 1 (round_half_even q)"
    by (simp_all add: n_def rq)
  have init: "delayed_states (sim ?s0) =
      \<lparr>maxlen = n, items = replicate n (sensable_state e (plant s0))\<rparr>"
    "plant_states (sim ?s0) = []"
    "sensable_state e (plant (sim ?s0)) = sensable_state e (plant s0)"
    by (simp_all add: ds n_def setup_Inr(5) [OF assms(1)])
  note hist = run_ticks_history [OF init n1 assms(2)]
  note front = run_ticks_front [OF init n1 assms(2)]
  have small: "n = 1" if "q < 3 / 2"
    using round_half_even_small [OF that] nr by simp
  have large: "\<bar>real n - q\<bar> \<le> 1 / 2 \<and> (\<bar>real n - q\<bar> = 1 / 2 \<longrightarrow> even n)" if "3 / 2 \<le> q"
  proof -
    from round_half_even_large [OF that] nr have eq: "int n = round_half_even q" by simp
    then have re: "real n = real_of_int (round_half_even q)"
      by (metis of_int_of_nat_eq)
    have ev: "even n = even (round_half_even q)"
      using eq by (metis even_of_nat_iff)
    show ?thesis
      using round_half_even_near [of q] round_half_even_tie [of q] by (simp add: re ev)
  qed
  have zero: "n = 1" if "float_div e (delay a) (sampletime a) = Fin 0"
    using that q small by simp
  have m0: "maxlen (delayed_states s0) = n" by (simp add: ds n_def)
  show ?thesis
    using q m0 nr n1 small zero large hist front by blast
qed

theorem delay_line_capacity_witness:
  "simulate_system_setup p_env test_args = Inr (p_sim0, Fin 48) \<and>
   run_ticks p_env test_args (Fin 48) 2 p_s0 = Inr p_s2 \<and>
   float_div p_env (delay test_args) (sampletime test_args) = Fin (5 / 2) \<and>
   maxlen (delayed_states p_sim0) = 2 \<and>
   deque_front (delayed_states (sim p_s2)) = Inr (Fin 328)"
proof -
  have run: "run_ticks p_env test_args (Fin 48) 2
      \<lparr>sim = p_sim0, timestamp = Fin 0, rng_draws = 0\<rparr> = Inr p_s2"
    using p_ticks(2) by (simp add: p_s0_def)
  from delay_line_capacity [OF setup_p_env_test_args run]
  obtain q n where "float_div p_env (delay test_args) (sampletime test_args) = Fin q"
    "maxlen (delayed_states p_sim0) = n"
    "deque_front (delayed_states (sim p_s2)) =
       Inr ((replicate n (sensable_state p_env (plant p_sim0)) @ plant_states (sim p_s2)) ! 2)"
    by blast
  moreover have "float_div p_env (delay test_args) (sampletime test_args) = Fin (5 / 2)"
    by (simp add: instance_defs)
  moreover have "maxlen (delayed_states p_sim0) = 2"
    by (simp add: p_sim0_def)
  moreover have "(replicate 2 (sensable_state p_env (plant p_sim0)) @ plant_states (sim p_s2)) ! 2
      = Fin 328"
    by (simp add: p_s2_def numeral_2_eq_2)
  ultimately show ?thesis
    using setup_p_env_test_args p_ticks(2) by simp
qed

text \<open>
  The run without delay: the capacity is 1, and the second tick senses 328, the
  observable that the plant has at that moment, not 40, the observable of one tick
  before.
\<close>

theorem zero_delay_senses_present_state:
  "simulate_system_setup p_env zero_delay_args = Inr (z_sim0, Fin 48) \<and>
   delay zero_delay_args = Fin 0 \<and>
   maxlen (delayed_states z_sim0) = 1 \<and>
   sensable_state p_env (plant z_sim0) = Fin 40 \<and>
   loop_body p_env zero_delay_args (Fin 48)
     \<lparr>sim = z_sim0, timestamp = Fin 0, rng_draws = 0\<rparr> = Inr z_s1 \<and>
   sensable_state p_env (plant (sim z_s1)) = Fin 328 \<and>
   read_sensor p_env zero_delay_args z_s1 = Inr (Fin 328, 0)"
proof -
  have "read_sensor p_env zero_delay_args z_s1 = Inr (Fin 328, 0)"
    by (simp add: read_sensor_def deque_front_def instance_defs z_s1_def)
  moreover have "sensable_state p_env (plant (sim z_s1)) = Fin 328"
    "sensable_state p_env (plant z_sim0) = Fin 40"
    "maxlen (delayed_states z_sim0) = 1" "delay zero_delay_args = Fin 0"
    by (simp_all add: instance_defs z_s1_def z_sim0_def)
  ultimately show ?thesis
    using setup_p_env_zero_delay_args z_tick1 by (simp add: z_s0_def)
qed

text \<open>
  C4. Before the loop starts, the delay line holds exactly as many copies of the plant's
  initial observable state as its capacity, so that its front is the plant's
  \<open>sensable_state\<close>. This holds for every delay.
\<close>

theorem delay_line_prefilled:
  assumes "simulate_system_setup e a = Inr (s, ac)"
  shows "items (delayed_states s) =
           replicate (maxlen (delayed_states s)) (sensable_state e (plant s)) \<and>
         (\<exists>q. py_round (float_div e (delay a) (sampletime a)) = Inr q \<and>
              maxlen (delayed_states s) = nat (max 1 q)) \<and>
         deque_front (delayed_states s) = Inr (sensable_state e (plant s))"
proof -
  have "deque_full (delayed_states s)" using setup_full [OF assms] .
  from deque_front_full [OF this] setup_Inr(3) [OF assms] show ?thesis
    by (auto simp: hd_replicate)
qed

theorem delay_line_prefilled_witness:
  "simulate_system_setup p_env test_args = Inr (p_sim0, Fin 48) \<and>
   deque_front (delayed_states p_sim0) = Inr (sensable_state p_env (plant p_sim0))"
  using delay_line_prefilled [OF setup_p_env_test_args] setup_p_env_test_args by blast

section \<open>Output range and rate limit of the PID controller\<close>

text \<open>
  C5. By its contract \<^verbatim>\<open>calc\<close> returns a value for every input, and the value lies within
  the output range provided that the range is not empty, the allowed change is not
  negative and the previous output lies within the range; the new previous output is the
  value returned, and the range stays as it is, so the property carries over to the next
  call. Without the condition on the previous output the value can lie outside the
  range: the rate limit is applied after the range clamp and starts from the previous
  output, which is 0 at start.
\<close>

theorem pid_output_in_range:
  assumes "pid_out_min c \<le> pid_out_max c" and "0 \<le> m"
    and "pid_out_min c \<le> last_output c" and "last_output c \<le> pid_out_max c"
  shows "\<exists>out c'. spec_calc c now x sp m = (out, c') \<and>
           pid_out_min c \<le> out \<and> out \<le> pid_out_max c \<and>
           last_output c' = out \<and>
           pid_out_min c' = pid_out_min c \<and> pid_out_max c' = pid_out_max c"
proof -
  obtain out c' where r: "spec_calc c now x sp m = (out, c')"
    by (cases "spec_calc c now x sp m")
  from spec_calc_range [OF assms r] spec_calc_last_output [OF r] r show ?thesis
    by blast
qed

theorem pid_output_in_range_witness:
  "pid_out_min pid0 \<le> pid_out_max pid0 \<and> pid_out_min pid0 \<le> last_output pid0 \<and>
   last_output pid0 \<le> pid_out_max pid0 \<and>
   fst (spec_calc pid0 48 40 45 2) = 2 \<and>
   pid_out_min pid0 \<le> fst (spec_calc pid0 48 40 45 2) \<and>
   fst (spec_calc pid0 48 40 45 2) \<le> pid_out_max pid0"
proof -
  have h: "pid_out_min pid0 \<le> pid_out_max pid0" "(0 :: real) \<le> 2"
    "pid_out_min pid0 \<le> last_output pid0" "last_output pid0 \<le> pid_out_max pid0"
    by (simp_all add: pid0_def)
  from pid_output_in_range [OF h, of 48 40 45]
  have "pid_out_min pid0 \<le> fst (spec_calc pid0 48 40 45 2)"
    "fst (spec_calc pid0 48 40 45 2) \<le> pid_out_max pid0"
    by auto
  with h pid0_first show ?thesis by simp
qed

text \<open>
  The controller with all gains 0 and the output range from 5 to 10: its first output is
  2, below the range.
\<close>

theorem pid_output_below_range:
  "spec_PIDArduino 48 0 0 0 5 10 = Inr narrow0 \<and>
   fst (spec_calc narrow0 48 40 45 2) = 2 \<and>
   fst (spec_calc narrow0 48 40 45 2) < pid_out_min narrow0"
  by (simp add: narrow0_constructed spec_calc_def narrow0_def Let_def)



section \<open>Sensor noise and determinism\<close>

text \<open>
  C7. When \<^verbatim>\<open>sensor_noise_std_dev\<close> is 0, every tick adds the noise term 0 to the front of
  the delay line and leaves the count of calls of the generator as it is; a run that
  returns has made no call of the generator; and two runs with the same arguments return
  the same, whatever their two generators would have delivered (the plant and the
  controller being functions of their inputs).
\<close>

theorem zero_noise_deterministic:
  assumes "sensor_noise_std_dev a = Fin 0"
  shows "simulate_system (e\<lparr>random_normal := g1\<rparr>) a =
           simulate_system (e\<lparr>random_normal := g2\<rparr>) a \<and>
         (\<forall>r. simulate_system e a = Some (Inr r) \<longrightarrow> rng_draws r = 0) \<and>
         read_sensor e a s =
           (case deque_front (delayed_states (sim s)) of
              Inl err \<Rightarrow> Inl err
            | Inr front \<Rightarrow> Inr (float_add e front (Fin 0), rng_draws s))"
proof -
  have quiet: "float_le (sensor_noise_std_dev a) (Fin 0)"
    using assms by simp
  show ?thesis
    using simulate_system_quiet_generator [OF quiet, where e = e and g = g1]
      simulate_system_quiet_generator [OF quiet, where e = e and g = g2]
      simulate_system_quiet_draws [OF quiet, where e = e]
      read_sensor_quiet [OF quiet, where e = e and s = s]
    by simp
qed

theorem zero_noise_deterministic_witness:
  "sensor_noise_std_dev test_args = Fin 0 \<and>
   simulate_system (p_env\<lparr>random_normal := (\<lambda>k scale. Inl ValueError)\<rparr>) test_args =
     Some (Inr p_s2) \<and>
   rng_draws p_s2 = 0"
proof -
  have z: "sensor_noise_std_dev test_args = Fin 0"
    by (simp add: test_args_def)
  have same: "p_env\<lparr>random_normal := random_normal p_env\<rparr> = p_env"
    by simp
  from zero_noise_deterministic [OF z, where e = p_env and s = p_s0
      and ?g1.0 = "\<lambda>k scale. Inl ValueError" and ?g2.0 = "random_normal p_env"]
  have "simulate_system (p_env\<lparr>random_normal := (\<lambda>k scale. Inl ValueError)\<rparr>) test_args =
      simulate_system p_env test_args"
    and "\<forall>r. simulate_system p_env test_args = Some (Inr r) \<longrightarrow> rng_draws r = 0"
    unfolding same by blast+
  with p_run z show ?thesis by simp
qed

text \<open>
  C10. When \<^verbatim>\<open>sensor_noise_std_dev\<close> is at most 0, a negative value or minus infinity
  included, the noise branch is skipped: every tick adds the noise term 0 and makes no
  call of the generator, a tick on a full delay line raises nothing, and the run returns
  what it returns for a noise level of 0, even with a generator that would raise on
  every call.
\<close>

theorem nonpositive_noise_disabled:
  assumes "float_le (sensor_noise_std_dev a) (Fin 0)"
  shows "read_sensor e a s =
           (case deque_front (delayed_states (sim s)) of
              Inl err \<Rightarrow> Inl err
            | Inr front \<Rightarrow> Inr (float_add e front (Fin 0), rng_draws s)) \<and>
         (deque_full (delayed_states (sim s)) \<longrightarrow>
            (\<exists>s'. loop_body e a ac s = Inr s' \<and> rng_draws s' = rng_draws s)) \<and>
         simulate_system e (a\<lparr>sensor_noise_std_dev := Fin 0\<rparr>) = simulate_system e a \<and>
         simulate_system (e\<lparr>random_normal := (\<lambda>k scale. Inl ValueError)\<rparr>) a =
           simulate_system e a \<and>
         (\<forall>r. simulate_system e a = Some (Inr r) \<longrightarrow> rng_draws r = 0)"
proof -
  have tick: "\<exists>s'. loop_body e a ac s = Inr s' \<and> rng_draws s' = rng_draws s"
    if "deque_full (delayed_states (sim s))"
  proof -
    from loop_body_succeeds [OF that, where a = a and e = e and ac = ac] assms
    obtain s' where "loop_body e a ac s = Inr s'" by blast
    with loop_body_quiet_draws [OF assms this] show ?thesis by blast
  qed
  show ?thesis
    using read_sensor_quiet [OF assms, where e = e and s = s] tick
      simulate_system_quiet_level [OF assms, where e = e]
      simulate_system_quiet_generator [OF assms, where e = e]
      simulate_system_quiet_draws [OF assms, where e = e]
    by simp
qed

theorem nonpositive_noise_disabled_witness:
  "sensor_noise_std_dev negative_noise_args = Fin (- 1) \<and>
   random_normal p_env 0 (Fin (- 1)) = Inl ValueError \<and>
   simulate_system p_env negative_noise_args = Some (Inr p_s2)"
proof -
  have neg: "float_le (sensor_noise_std_dev negative_noise_args) (Fin 0)"
    and lvl: "sensor_noise_std_dev negative_noise_args = Fin (- 1)"
    by (simp_all add: negative_noise_args_def)
  have orig: "negative_noise_args\<lparr>sensor_noise_std_dev := Fin 0\<rparr> = test_args"
    by (simp add: negative_noise_args_def test_args_def)
  from nonpositive_noise_disabled [OF neg, where e = p_env and s = p_s0 and ac = "Fin 48"]
  have "simulate_system p_env (negative_noise_args\<lparr>sensor_noise_std_dev := Fin 0\<rparr>) =
      simulate_system p_env negative_noise_args"
    by blast
  then have "simulate_system p_env negative_noise_args = Some (Inr p_s2)"
    unfolding orig using p_run by simp
  moreover have "random_normal p_env 0 (Fin (- 1)) = Inl ValueError"
    by (simp add: p_env_def test_env_def)
  ultimately show ?thesis using lvl by blast
qed

section \<open>Suppressed output\<close>

text \<open>
  C8. When the flag \<^verbatim>\<open>supress_output\<close> is set, a run that returns has recorded the
  output 0 on every tick, has left the controller as the constructor made it, and has
  advanced the plant once per tick with the command 0 over one sample time; and the run
  returns the same whatever the method \<^verbatim>\<open>calc\<close> of the controller would do, since it is
  not called.
\<close>

theorem supressed_output_is_zero:
  assumes "supress_output a"
    and "simulate_system_setup e a = Inr (s0, ac)"
    and "simulate_system e a = Some (Inr r)"
  shows "outputs (sim r) = replicate (length (timestamps (sim r))) (Fin 0) \<and>
         length (outputs (sim r)) = length (timestamps (sim r)) \<and>
         controller (sim r) = controller s0 \<and>
         plant (sim r) =
           ((\<lambda>p. update e p (Fin 0) (sampletime a)) ^^ length (timestamps (sim r)))
             (plant s0) \<and>
         simulate_system (e\<lparr>calc := f\<rparr>) a = simulate_system e a"
proof -
  let ?s = "\<lparr>sim = s0, timestamp = Fin 0, rng_draws = 0\<rparr>"
  have run: "sim_loop e a ac ?s = Some (Inr r)"
    using assms(2,3) by (simp add: simulate_system_def)
  have init: "timestamps (sim ?s) = []" "outputs (sim ?s) = []"
    by (simp_all add: setup_Inr(4,7) [OF assms(2)])
  from sim_loop_supress [OF assms(1) run init]
  have "outputs (sim r) = replicate (length (timestamps (sim r))) (Fin 0)"
    and "controller (sim r) = controller s0"
    and "plant (sim r) =
           ((\<lambda>p. update e p (Fin 0) (sampletime a)) ^^ length (timestamps (sim r)))
             (plant s0)"
    by simp_all
  moreover from this(1) have "length (outputs (sim r)) = length (timestamps (sim r))"
    by (metis length_replicate)
  ultimately show ?thesis
    using simulate_system_supress_calc [OF assms(1), where e = e and f = f] by simp
qed

theorem supressed_output_is_zero_witness:
  "supress_output supress_args \<and>
   simulate_system (p_env\<lparr>calc := (\<lambda>c now x sp m. (Fin 1, c))\<rparr>) supress_args =
     Some (Inr u_s2) \<and>
   outputs (sim u_s2) = [Fin 0, Fin 0] \<and>
   plant (sim u_s2) = Fin 136"
proof -
  have sup: "supress_output supress_args"
    by (simp add: supress_args_def)
  from supressed_output_is_zero [OF sup setup_p_env_supress_args u_run,
      where f = "\<lambda>c now x sp m. (Fin 1, c)"]
  have "simulate_system (p_env\<lparr>calc := (\<lambda>c now x sp m. (Fin 1, c))\<rparr>) supress_args =
      simulate_system p_env supress_args"
    by blast
  moreover have "outputs (sim u_s2) = [Fin 0, Fin 0]" "plant (sim u_s2) = Fin 136"
    by (simp_all add: u_s2_def)
  ultimately show ?thesis using sup u_run by simp
qed

section \<open>Configuration errors\<close>

text \<open>
  C9. When the module \<^verbatim>\<open>plant\<close> has no attribute of the given name, or the initial
  values or the constant values evaluate to something that is not a dictionary,
  \<^verbatim>\<open>simulate_system\<close> raises before its loop starts: the error is the one of the set-up,
  in which no simulation and so none of the four series exists yet. The error is
  \<^verbatim>\<open>AssertionError\<close> whenever line 22 has passed and either the plant is unknown or the
  initial values could be evaluated.
\<close>

theorem configuration_error_aborts:
  assumes "plant_module e (args.plant a) = None \<or>
           (\<exists>v. literal_eval e (initial_values a) = Inr v \<and> \<not> is_dict v) \<or>
           (\<exists>v. literal_eval e (constant_values a) = Inr v \<and> \<not> is_dict v)"
  shows "\<exists>err. simulate_system_setup e a = Inl err \<and>
           simulate_system e a = Some (Inl err) \<and>
           (sampletime a \<noteq> Fin 0 \<and>
            (\<exists>q. py_round (float_div e (delay a) (sampletime a)) = Inr q) \<and>
            (plant_module e (args.plant a) = None \<or>
             (\<exists>v. literal_eval e (initial_values a) = Inr v)) \<longrightarrow>
            err = AssertionError)"
proof -
  have "\<exists>err. simulate_system_setup e a = Inl err \<and>
           (sampletime a \<noteq> Fin 0 \<and>
            (\<exists>q. py_round (float_div e (delay a) (sampletime a)) = Inr q) \<and>
            (plant_module e (args.plant a) = None \<or>
             (\<exists>v. literal_eval e (initial_values a) = Inr v)) \<longrightarrow>
            err = AssertionError)"
    using assms
    by (auto simp: simulate_system_setup_def Let_def split: sum.splits option.splits)
  then show ?thesis
    by (auto simp: simulate_system_def)
qed

theorem configuration_error_aborts_witness:
  "plant_module p_env (args.plant unknown_plant_args) = None \<and>
   simulate_system_setup p_env unknown_plant_args = Inl AssertionError \<and>
   simulate_system p_env unknown_plant_args = Some (Inl AssertionError)"
proof -
  have unknown: "plant_module p_env (args.plant unknown_plant_args) = None"
    by (simp add: unknown_plant_args_def instance_defs)
  have st: "sampletime unknown_plant_args \<noteq> Fin 0"
    and q: "py_round (float_div p_env (delay unknown_plant_args)
              (sampletime unknown_plant_args)) = Inr 2"
    by (simp_all add: unknown_plant_args_def instance_defs round_half_even_def)
  from configuration_error_aborts [of p_env unknown_plant_args] unknown st q
  show ?thesis by auto
qed

end
